theory Spec2Isabelle
  imports Complex_Main
begin

section \<open>Numbers and vectors\<close>

text \<open>
  The program computes with JavaScript numbers (and, in the particle shader, with GLSL floats).
  They are modelled as real numbers: rounding is not modelled. JavaScript raises no error on a
  division by zero, the result is an infinity or a NaN; where the source divides by a value that
  can be zero, the model returns the outcome \<open>NonFinite\<close> instead of a number. Reading a
  component of \<open>undefined\<close> (an array read out of range, a missing attribute) throws a
  TypeError.
\<close>

datatype js_error = TypeError | NonFinite

type_synonym 'a result = "js_error + 'a"

definition bind_result :: "'a result \<Rightarrow> ('a \<Rightarrow> 'b result) \<Rightarrow> 'b result" where
  "bind_result m f = (case m of Inl e \<Rightarrow> Inl e | Inr x \<Rightarrow> f x)"

type_synonym vec3 = "real \<times> real \<times> real"

definition vx :: "vec3 \<Rightarrow> real" where "vx v = fst v"
definition vy :: "vec3 \<Rightarrow> real" where "vy v = fst (snd v)"
definition vz :: "vec3 \<Rightarrow> real" where "vz v = snd (snd v)"

text \<open>\<open>THREE.MathUtils.lerp(x, y, t)\<close> of three.js: \<open>(1 - t) * x + t * y\<close>.\<close>

definition lerp :: "real \<Rightarrow> real \<Rightarrow> real \<Rightarrow> real" where
  "lerp x y t = (1 - t) * x + t * y"

text \<open>\<open>Vector3.length()\<close> of three.js.\<close>

definition vlength :: "vec3 \<Rightarrow> real" where
  "vlength v = sqrt (vx v * vx v + vy v * vy v + vz v * vz v)"

section \<open>Types (types.ts)\<close>

datatype TreeState = SCATTERED | TREE_SHAPE

record PositionData =
  treePosition :: vec3
  scatterPosition :: vec3
  rotation :: vec3
  scale :: real
  speed :: real
  phase :: real

section \<open>Samplers (utils/math.ts)\<close>

text \<open>
  \<open>getScatterPosition\<close>: the three calls of \<open>Math.random()\<close> are the arguments
  \<open>u\<close>, \<open>v\<close> and \<open>w\<close>, in the order in which the source draws them.
  \<open>Math.cbrt\<close> is the real cube root \<open>root 3\<close>, \<open>Math.acos\<close> is \<open>arccos\<close>.
\<close>

definition getScatterPosition :: "real \<Rightarrow> real \<Rightarrow> real \<Rightarrow> real \<Rightarrow> vec3" where
  "getScatterPosition radius u v w =
     (let theta = 2 * pi * u;
          phi = arccos (2 * v - 1);
          r = root 3 w * radius;
          x = r * sin phi * cos theta;
          y = r * sin phi * sin theta;
          z = r * cos phi
      in (x, y, z))"

text \<open>
  \<open>getTreePosition\<close>: \<open>index\<close> and \<open>total\<close> (here \<open>total'\<close>) are the loop counter and
  the element count of the callers, natural numbers; \<open>w\<close> is the call of \<open>Math.random()\<close>. The source
  divides by \<open>total\<close> and by \<open>height\<close>.
\<close>

definition goldenAngle :: real where
  "goldenAngle = pi * (3 - sqrt 5)"

definition getTreePosition :: "real \<Rightarrow> real \<Rightarrow> real \<Rightarrow> nat \<Rightarrow> nat \<Rightarrow> real \<Rightarrow> vec3 result" where
  "getTreePosition height baseRadius yOffset index total' w =
     (if total' = 0 \<or> height = 0 then Inl NonFinite
      else
        let y = (real index / real total') * height;
            radiusAtHeight = (1 - y / height) * baseRadius;
            r = radiusAtHeight * sqrt w;
            theta = real index * goldenAngle;
            x = r * cos theta;
            z = r * sin theta
        in Inr (x, y - yOffset, z))"

section \<open>Progress Controller (components/Experience.tsx, SceneContent)\<close>

text \<open>
  The two refs of \<open>SceneContent\<close>: \<open>animationProgress.current\<close>, and the y rotation of the
  group behind \<open>groupRef\<close> (\<open>None\<close> while \<open>groupRef.current\<close> is null).
\<close>

record SceneContent_refs =
  animationProgress :: real
  groupRotationY :: "real option"

definition targetProgress :: "TreeState \<Rightarrow> real" where
  "targetProgress treeState = (if treeState = TREE_SHAPE then 1 else 0)"

definition SceneContent_useFrame :: "TreeState \<Rightarrow> real \<Rightarrow> SceneContent_refs \<Rightarrow> SceneContent_refs" where
  "SceneContent_useFrame treeState delta s =
     (let speed = 2.0 * delta;
          diff = targetProgress treeState - animationProgress s;
          s1 = (if \<bar>diff\<bar> > 0.001
                then s\<lparr>animationProgress := animationProgress s + diff * speed\<rparr>
                else s\<lparr>animationProgress := targetProgress treeState\<rparr>)
      in case groupRotationY s1 of
           None \<Rightarrow> s1
         | Some ry \<Rightarrow>
             if treeState = TREE_SHAPE then s1\<lparr>groupRotationY := Some (ry + delta * 0.1)\<rparr>
             else s1)"

text \<open>The render loop: one call of the frame callback per tick, with that tick's delta.\<close>

definition run_ticks :: "TreeState \<Rightarrow> real list \<Rightarrow> SceneContent_refs \<Rightarrow> SceneContent_refs" where
  "run_ticks treeState deltas s = foldl (\<lambda>s' delta. SceneContent_useFrame treeState delta s') s deltas"

section \<open>Vector operations of three.js used by the components\<close>

text \<open>
  The methods of \<open>THREE.Vector3\<close> that the ribbon frame calls, after the library's source.
  \<open>normalize()\<close> is \<open>divideScalar(length() || 1)\<close>: a zero length is replaced by 1 before the
  division. \<open>divideScalar(s)\<close> multiplies by \<open>1 / s\<close>; for \<open>s = 0\<close> that is an infinity, and the
  outcome is \<open>NonFinite\<close>.
\<close>

definition multiplyScalar :: "vec3 \<Rightarrow> real \<Rightarrow> vec3" where
  "multiplyScalar v s = (vx v * s, vy v * s, vz v * s)"

definition divideScalar :: "vec3 \<Rightarrow> real \<Rightarrow> vec3 result" where
  "divideScalar v s = (if s = 0 then Inl NonFinite else Inr (multiplyScalar v (1 / s)))"

definition normalize :: "vec3 \<Rightarrow> vec3 result" where
  "normalize v = divideScalar v (if vlength v = 0 then 1 else vlength v)"

definition crossVectors :: "vec3 \<Rightarrow> vec3 \<Rightarrow> vec3" where
  "crossVectors a b =
     (vy a * vz b - vz a * vy b, vz a * vx b - vx a * vz b, vx a * vy b - vy a * vx b)"

text \<open>
  \<open>applyAxisAngle(axis, angle)\<close> is \<open>applyQuaternion\<close> of the quaternion that
  \<open>setFromAxisAngle\<close> builds: \<open>(axis * sin (angle / 2), cos (angle / 2))\<close>.
\<close>

definition applyAxisAngle :: "vec3 \<Rightarrow> vec3 \<Rightarrow> real \<Rightarrow> vec3" where
  "applyAxisAngle v axis angle =
     (let halfAngle = angle / 2;
          s = sin halfAngle;
          qx = vx axis * s; qy = vy axis * s; qz = vz axis * s; qw = cos halfAngle;
          tx = 2 * (qy * vz v - qz * vy v);
          ty = 2 * (qz * vx v - qx * vz v);
          tz = 2 * (qx * vy v - qy * vx v)
      in (vx v + qw * tx + qy * tz - qz * ty,
          vy v + qw * ty + qz * tx - qx * tz,
          vz v + qw * tz + qx * ty - qy * tx))"

section \<open>Instanced Ornament Animator (components/Ornaments.tsx)\<close>

text \<open>
  \<open>tempObject\<close> is the module's shared \<open>Object3D\<close>: its position, its Euler rotation and its
  scale. \<open>updateMatrix()\<close> composes the object's matrix from these three and
  \<open>setMatrixAt(i, tempObject.matrix)\<close> copies it into entry \<open>i\<close> of the instance buffer; an
  entry of the buffer is represented by the three values its matrix is composed from. A write
  past the end of the buffer's typed array is ignored, as \<open>list_update\<close> does.
\<close>

record Object3D =
  obj_position :: vec3
  obj_rotation :: vec3
  obj_scale :: vec3

text \<open>
  The state the frame callback works on: \<open>tempObject\<close>, and the instance buffer of the mesh
  (\<open>None\<close> while \<open>meshRef.current\<close> is null).
\<close>

record Ornaments_state =
  tempObject :: Object3D
  instanceMatrix :: "Object3D list option"

text \<open>
  The easing \<open>t = progress * progress * (3 - 2 * progress)\<close>, which the frame callbacks of the
  ornaments and of the ribbons both compute.
\<close>

definition smoothstep :: "real \<Rightarrow> real" where
  "smoothstep progress = progress * progress * (3 - 2 * progress)"

text \<open>The body of the \<open>forEach\<close> callback up to \<open>updateMatrix()\<close>.\<close>

definition Ornaments_item :: "PositionData \<Rightarrow> real \<Rightarrow> real \<Rightarrow> Object3D \<Rightarrow> Object3D" where
  "Ornaments_item item t time obj =
     (let x = lerp (vx (scatterPosition item)) (vx (treePosition item)) t;
          y = lerp (vy (scatterPosition item)) (vy (treePosition item)) t;
          z = lerp (vz (scatterPosition item)) (vz (treePosition item)) t;
          floatFactor = 1.0 - t;
          floatY = sin (time * speed item + phase item) * floatFactor * 0.5;
          floatRot = time * speed item * 0.2 * floatFactor
      in obj\<lparr>obj_position := (x, y + floatY, z),
              obj_rotation := (vx (rotation item) + floatRot, vy (rotation item) + floatRot,
                               vz (rotation item)),
              obj_scale := (scale item, scale item, scale item)\<rparr>)"

fun Ornaments_forEach ::
  "PositionData list \<Rightarrow> nat \<Rightarrow> real \<Rightarrow> real \<Rightarrow> Object3D \<times> Object3D list \<Rightarrow> Object3D \<times> Object3D list" where
  "Ornaments_forEach [] i t time (obj, m) = (obj, m)"
| "Ornaments_forEach (item # rest) i t time (obj, m) =
     (let obj' = Ornaments_item item t time obj
      in Ornaments_forEach rest (Suc i) t time (obj', m[i := obj']))"

definition Ornaments_useFrame ::
  "PositionData list \<Rightarrow> real \<Rightarrow> real \<Rightarrow> Ornaments_state \<Rightarrow> Ornaments_state" where
  "Ornaments_useFrame data progress time st =
     (case instanceMatrix st of
        None \<Rightarrow> st
      | Some m \<Rightarrow>
          let t = smoothstep progress;
              (obj', m') = Ornaments_forEach data 0 t time (tempObject st, m)
          in \<lparr>tempObject = obj', instanceMatrix = Some m'\<rparr>)"

section \<open>Ribbon Strip Builder (components/Ribbons.tsx)\<close>

text \<open>
  The props of \<open>Ribbon\<close> that the layout effect and the frame callback read (\<open>length\<close> is
  destructured as \<open>segments\<close>); the other props only feed the two paths, which \<open>useMemo\<close>
  builds once from random draws and a Catmull-Rom curve and which are inputs here.
\<close>

record RibbonProps =
  width :: real
  segments :: nat
  phaseOffset :: real

record RibbonPaths =
  treePath :: "vec3 list"
  scatterPath :: "vec3 list"

text \<open>
  The geometry of the mesh: the \<open>position\<close> attribute (item size 3: a list of vertices), the
  \<open>uv\<close> attribute (the raw array, two numbers per vertex) and the index. An attribute is
  \<open>None\<close> until it is set. \<open>computeVertexNormals()\<close> of three.js derives the \<open>normal\<close>
  attribute from the position and the index; it is not part of the model.
\<close>

record BufferGeometry =
  attr_position :: "vec3 list option"
  attr_uv :: "real list option"
  index :: "nat list option"

text \<open>The loop of the layout effect: the uv array and the pushed indices.\<close>

function Ribbon_layout_loop :: "nat \<Rightarrow> nat \<Rightarrow> real list \<times> nat list \<Rightarrow> real list \<times> nat list" where
  "Ribbon_layout_loop segs i (uvs, indices) =
     (if i \<le> segs then
        let v = real i / real segs;
            uvs' = uvs[i * 4 + 0 := 0, i * 4 + 1 := v, i * 4 + 2 := 1, i * 4 + 3 := v];
            indices' = (if i < segs then
                          let base = i * 2
                          in indices @ [base, base + 1, base + 2] @ [base + 1, base + 3, base + 2]
                        else indices)
        in Ribbon_layout_loop segs (i + 1) (uvs', indices')
      else (uvs, indices))"
  by pat_completeness auto
termination
  by (relation "measure (\<lambda>(segs, i, _). segs + 1 - i)") auto

text \<open>
  The layout effect. \<open>v = i / segments\<close> divides by the segment count: for \<open>segments = 0\<close> the
  uv array receives NaN.
\<close>

definition Ribbon_useLayoutEffect :: "nat \<Rightarrow> BufferGeometry option \<Rightarrow> BufferGeometry option result" where
  "Ribbon_useLayoutEffect segs meshRef =
     (case meshRef of
        None \<Rightarrow> Inr None
      | Some geometry \<Rightarrow>
          if segs = 0 then Inl NonFinite
          else
            let vertexCount = (segs + 1) * 2;
                positions = replicate vertexCount (0, 0, 0);
                (uvs, indices) = Ribbon_layout_loop segs 0 (replicate (vertexCount * 2) 0, [])
            in Inr (Some (geometry\<lparr>attr_position := Some positions, attr_uv := Some uvs,
                                     index := Some indices\<rparr>)))"

text \<open>\<open>scatterPath[i].x\<close>: a read out of range gives \<open>undefined\<close>, whose component throws.\<close>

definition path_at :: "vec3 list \<Rightarrow> nat \<Rightarrow> vec3 result" where
  "path_at path i = (if i < length path then Inr (path ! i) else Inl TypeError)"

text \<open>
  The blended centre at path index \<open>i\<close>: the source computes it for \<open>i\<close> (\<open>cx, cy, cz\<close>) and,
  with the same formula, for \<open>iNext\<close> (\<open>nx, ny, nz\<close>).
\<close>

definition Ribbon_center :: "RibbonProps \<Rightarrow> RibbonPaths \<Rightarrow> real \<Rightarrow> real \<Rightarrow> nat \<Rightarrow> vec3 result" where
  "Ribbon_center props paths t time i =
     bind_result (path_at (scatterPath paths) i) (\<lambda>pScatter.
     bind_result (path_at (treePath paths) i) (\<lambda>pTree.
       let floatFactor = 1.0 - t;
           noiseX = sin (time * 0.5 + real i * 0.1 + phaseOffset props) * floatFactor * 1.5;
           noiseY = cos (time * 0.3 + real i * 0.1) * floatFactor * 1.5;
           noiseZ = sin (time * 0.4 + real i * 0.05) * floatFactor * 1.5;
           cx = lerp (vx pScatter + noiseX) (vx pTree) t;
           cy = lerp (vy pScatter + noiseY) (vy pTree) t;
           cz = lerp (vz pScatter + noiseZ) (vz pTree) t
       in Inr (cx, cy, cz)))"

definition Ribbon_tangent :: "RibbonProps \<Rightarrow> RibbonPaths \<Rightarrow> real \<Rightarrow> real \<Rightarrow> nat \<Rightarrow> vec3 result" where
  "Ribbon_tangent props paths t time i =
     bind_result (Ribbon_center props paths t time i) (\<lambda>c.
     bind_result (Ribbon_center props paths t time (min (i + 1) (segments props))) (\<lambda>n.
       if i = segments props then Inr (0, 1, 0)
       else normalize (vx n - vx c, vy n - vy c, vz n - vz c)))"

text \<open>One pass of the loop body: the left and the right vertex at path index \<open>i\<close>.\<close>

definition Ribbon_vertices ::
  "RibbonProps \<Rightarrow> RibbonPaths \<Rightarrow> real \<Rightarrow> real \<Rightarrow> nat \<Rightarrow> (vec3 \<times> vec3) result" where
  "Ribbon_vertices props paths t time i =
     bind_result (Ribbon_center props paths t time i) (\<lambda>c.
     bind_result (Ribbon_tangent props paths t time i) (\<lambda>tangent.
     bind_result (normalize (crossVectors tangent (0, 1, 0))) (\<lambda>normal0.
       let twistAngle = real i * 0.1 * (1 - t) * 5;
           normal = (if twistAngle \<noteq> 0 then applyAxisAngle normal0 tangent twistAngle else normal0);
           sideOffset = multiplyScalar normal (width props * 0.5)
       in Inr ((vx c + vx sideOffset, vy c + vy sideOffset, vz c + vz sideOffset),
               (vx c - vx sideOffset, vy c - vy sideOffset, vz c - vz sideOffset)))))"

text \<open>\<open>posAttr.setXYZ(k, x, y, z)\<close>: a write past the end of the typed array is ignored.\<close>

definition setXYZ :: "vec3 list \<Rightarrow> nat \<Rightarrow> vec3 \<Rightarrow> vec3 list" where
  "setXYZ posAttr k v = posAttr[k := v]"

function Ribbon_loop ::
  "RibbonProps \<Rightarrow> RibbonPaths \<Rightarrow> real \<Rightarrow> real \<Rightarrow> nat \<Rightarrow> vec3 list \<Rightarrow> vec3 list result" where
  "Ribbon_loop props paths t time i posAttr =
     (if i \<le> segments props then
        case Ribbon_vertices props paths t time i of
          Inl e \<Rightarrow> Inl e
        | Inr (left, right) \<Rightarrow>
            Ribbon_loop props paths t time (i + 1)
              (setXYZ (setXYZ posAttr (i * 2) left) (i * 2 + 1) right)
      else Inr posAttr)"
  by pat_completeness auto
termination
  by (relation "measure (\<lambda>(props, _, _, _, i, _). segments props + 1 - i)") auto

definition Ribbon_useFrame ::
  "RibbonProps \<Rightarrow> RibbonPaths \<Rightarrow> real \<Rightarrow> real \<Rightarrow> BufferGeometry option \<Rightarrow> BufferGeometry option result" where
  "Ribbon_useFrame props paths progress time meshRef =
     (case meshRef of
        None \<Rightarrow> Inr None
      | Some geo \<Rightarrow>
          (case attr_position geo of
             None \<Rightarrow> Inl TypeError
           | Some posAttr \<Rightarrow>
               let t = smoothstep progress
               in bind_result (Ribbon_loop props paths t time 0 posAttr)
                    (\<lambda>posAttr'. Inr (Some (geo\<lparr>attr_position := Some posAttr'\<rparr>)))))"

text \<open>The render loop of a ribbon: one frame per tick, each with its progress and time.\<close>

fun Ribbon_frames ::
  "RibbonProps \<Rightarrow> RibbonPaths \<Rightarrow> (real \<times> real) list \<Rightarrow> BufferGeometry option \<Rightarrow> BufferGeometry option result" where
  "Ribbon_frames props paths [] meshRef = Inr meshRef"
| "Ribbon_frames props paths ((progress, time) # ticks) meshRef =
     bind_result (Ribbon_useFrame props paths progress time meshRef) (Ribbon_frames props paths ticks)"

section \<open>Particle Field (components/Foliage.tsx, vertex shader)\<close>

text \<open>
  The GLSL built-ins the shader uses, componentwise on \<open>vec3\<close> and \<open>vec4\<close>:
  \<open>mix(x, y, a) = x * (1 - a) + y * a\<close>, \<open>step(edge, x)\<close> is 0 for \<open>x < edge\<close> and 1 otherwise.
  In \<open>snoise\<close> the constant vectors \<open>C\<close>, \<open>D\<close> and \<open>ns\<close> are written by their components
  (\<open>Cx\<close>, \<open>Cy\<close>, ...), the reassigned \<open>i\<close>, \<open>m\<close> and \<open>p0\<close> to \<open>p3\<close> get a prime, and
  \<open>n_\<close>, \<open>x_\<close>, \<open>y_\<close> are \<open>n'\<close>, \<open>x'\<close>, \<open>y'\<close>.

  The literal \<open>0.142857142857\<close> of \<open>n_\<close> is a GLSL \<open>float\<close>: it denotes the nearest
  single-precision number, \<open>9586981 / 2 ^ 26\<close>, which lies just above 1/7, while the decimal
  itself lies just below. The floors \<open>floor(p * ns.z * ns.z)\<close> and \<open>floor(j * ns.z)\<close> are taken
  at whole multiples of 49 and of 7, so the side of 1/7 decides which gradient is selected:
  \<open>n'\<close> is the single-precision value. Every other literal only enters sums and products, and
  is taken at its decimal value.
\<close>

type_synonym vec4 = "real \<times> real \<times> real \<times> real"

definition mix :: "real \<Rightarrow> real \<Rightarrow> real \<Rightarrow> real" where
  "mix x y a = x * (1 - a) + y * a"

definition mix3 :: "vec3 \<Rightarrow> vec3 \<Rightarrow> real \<Rightarrow> vec3" where
  "mix3 a b p = (mix (vx a) (vx b) p, mix (vy a) (vy b) p, mix (vz a) (vz b) p)"

definition step :: "real \<Rightarrow> real \<Rightarrow> real" where
  "step edge x = (if x < edge then 0 else 1)"

definition floor_real :: "real \<Rightarrow> real" where
  "floor_real x = of_int \<lfloor>x\<rfloor>"

definition map3 :: "(real \<Rightarrow> real) \<Rightarrow> vec3 \<Rightarrow> vec3" where
  "map3 f v = (f (vx v), f (vy v), f (vz v))"

definition map4 :: "(real \<Rightarrow> real) \<Rightarrow> vec4 \<Rightarrow> vec4" where
  "map4 f v = (case v of (a, b, c, d) \<Rightarrow> (f a, f b, f c, f d))"

definition zip4 :: "(real \<Rightarrow> real \<Rightarrow> real) \<Rightarrow> vec4 \<Rightarrow> vec4 \<Rightarrow> vec4" where
  "zip4 f v w = (case v of (a, b, c, d) \<Rightarrow> case w of (a', b', c', d') \<Rightarrow> (f a a', f b b', f c c', f d d'))"

definition dot3 :: "vec3 \<Rightarrow> vec3 \<Rightarrow> real" where
  "dot3 a b = vx a * vx b + vy a * vy b + vz a * vz b"

definition dot4 :: "vec4 \<Rightarrow> vec4 \<Rightarrow> real" where
  "dot4 v w = (case v of (a, b, c, d) \<Rightarrow> case w of (a', b', c', d') \<Rightarrow> a * a' + b * b' + c * c' + d * d')"

definition mod289 :: "real \<Rightarrow> real" where
  "mod289 x = x - floor_real (x * (1.0 / 289.0)) * 289.0"

definition permute :: "vec4 \<Rightarrow> vec4" where
  "permute x = map4 (\<lambda>a. mod289 (((a * 34.0) + 1.0) * a)) x"

definition taylorInvSqrt :: "vec4 \<Rightarrow> vec4" where
  "taylorInvSqrt r = map4 (\<lambda>a. 1.79284291400159 - 0.85373472095314 * a) r"

definition snoise :: "vec3 \<Rightarrow> real" where
  "snoise v =
     (let Cx = 1.0 / 6.0; Cy = 1.0 / 3.0;
          Dx = 0.0; Dy = 0.5; Dz = 1.0; Dw = 2.0;
          i = map3 (\<lambda>a. floor_real (a + dot3 v (Cy, Cy, Cy))) v;
          x0 = (vx v - vx i + dot3 i (Cx, Cx, Cx),
                vy v - vy i + dot3 i (Cx, Cx, Cx),
                vz v - vz i + dot3 i (Cx, Cx, Cx));
          g = (step (vy x0) (vx x0), step (vz x0) (vy x0), step (vx x0) (vz x0));
          l = map3 (\<lambda>a. 1.0 - a) g;
          i1 = (min (vx g) (vz l), min (vy g) (vx l), min (vz g) (vy l));
          i2 = (max (vx g) (vz l), max (vy g) (vx l), max (vz g) (vy l));
          x1 = (vx x0 - vx i1 + Cx, vy x0 - vy i1 + Cx, vz x0 - vz i1 + Cx);
          x2 = (vx x0 - vx i2 + Cy, vy x0 - vy i2 + Cy, vz x0 - vz i2 + Cy);
          x3 = (vx x0 - Dy, vy x0 - Dy, vz x0 - Dy);
          i' = map3 mod289 i;
          p = permute (zip4 (+)
                (map4 (\<lambda>a. a + vx i')
                   (permute (zip4 (+)
                      (map4 (\<lambda>a. a + vy i')
                         (permute (map4 (\<lambda>a. vz i' + a) (0.0, vz i1, vz i2, 1.0))))
                      (0.0, vy i1, vy i2, 1.0))))
                (0.0, vx i1, vx i2, 1.0));
          n' = 9586981 / 67108864;
          nsx = n' * Dw - Dx; nsy = n' * Dy - Dz; nsz = n' * Dz - Dx;
          j = map4 (\<lambda>a. a - 49.0 * floor_real (a * nsz * nsz)) p;
          x' = map4 (\<lambda>a. floor_real (a * nsz)) j;
          y' = zip4 (\<lambda>a b. floor_real (a - 7.0 * b)) j x';
          x = map4 (\<lambda>a. a * nsx + nsy) x';
          y = map4 (\<lambda>a. a * nsx + nsy) y';
          h = zip4 (\<lambda>a b. 1.0 - \<bar>a\<bar> - \<bar>b\<bar>) x y
      in case x of (xx, xy, xz, xw) \<Rightarrow> case y of (yx, yy, yz, yw) \<Rightarrow>
         case h of (hx, hy, hz, hw) \<Rightarrow>
         let b0 = (xx, xy, yx, yy);
             b1 = (xz, xw, yz, yw);
             s0 = map4 (\<lambda>a. floor_real a * 2.0 + 1.0) b0;
             s1 = map4 (\<lambda>a. floor_real a * 2.0 + 1.0) b1;
             sh = map4 (\<lambda>a. - step a 0.0) h
         in case s0 of (s0x, s0y, s0z, s0w) \<Rightarrow> case s1 of (s1x, s1y, s1z, s1w) \<Rightarrow>
            case sh of (shx, shy, shz, shw) \<Rightarrow>
            let a0 = (xx + s0x * shx, yx + s0z * shx, xy + s0y * shy, yy + s0w * shy);
                a1 = (xz + s1x * shz, yz + s1z * shz, xw + s1y * shw, yw + s1w * shw)
            in case a0 of (a0x, a0y, a0z, a0w) \<Rightarrow> case a1 of (a1x, a1y, a1z, a1w) \<Rightarrow>
               let p0 = (a0x, a0y, hx);
                   p1 = (a0z, a0w, hy);
                   p2 = (a1x, a1y, hz);
                   p3 = (a1z, a1w, hw);
                   norm = taylorInvSqrt (dot3 p0 p0, dot3 p1 p1, dot3 p2 p2, dot3 p3 p3)
               in case norm of (normx, normy, normz, normw) \<Rightarrow>
                  let p0' = multiplyScalar p0 normx;
                      p1' = multiplyScalar p1 normy;
                      p2' = multiplyScalar p2 normz;
                      p3' = multiplyScalar p3 normw;
                      m = map4 (\<lambda>a. max (0.6 - a) 0.0) (dot3 x0 x0, dot3 x1 x1, dot3 x2 x2, dot3 x3 x3);
                      m' = zip4 (*) m m
                  in 42.0 * dot4 (zip4 (*) m' m')
                                 (dot3 p0' x0, dot3 p1' x1, dot3 p2' x2, dot3 p3' x3))"

text \<open>
  What \<open>main()\<close> of the vertex shader assigns to \<open>pos\<close>, from which it derives
  \<open>gl_Position\<close> by the camera's matrices.
\<close>

definition floatIntensity :: "real \<Rightarrow> real" where
  "floatIntensity uProgress = mix 2.0 0.1 uProgress"

definition Foliage_main_pos :: "vec3 \<Rightarrow> vec3 \<Rightarrow> real \<Rightarrow> real \<Rightarrow> vec3" where
  "Foliage_main_pos aScatterPos aTreePos uProgress uTime =
     (let pos = mix3 aScatterPos aTreePos uProgress;
          noiseVal = snoise (vx pos * 0.5 + uTime * 0.5, vy pos * 0.5 + uTime * 0.5,
                             vz pos * 0.5 + uTime * 0.5)
      in (vx pos + 0.0, vy pos + noiseVal * floatIntensity uProgress * 0.5, vz pos + 0.0))"

text \<open>
  The shader is compiled before it runs on any vertex. Every global name that \<open>main()\<close> uses
  must be declared: by the shader text itself (its \<open>uniform\<close>, \<open>attribute\<close> and \<open>varying\<close>
  lines), by the prefix that three.js puts before the text of a \<open>ShaderMaterial\<close>, or by GLSL
  (\<open>gl_Position\<close>, \<open>gl_PointSize\<close>). The \<open>uniforms\<close> object on the JavaScript side supplies
  values, it declares nothing in the shader. A name that is not declared is a compile error: the
  program is not linked and no vertex is processed.
\<close>

datatype glsl_error = UndeclaredIdentifier string

definition vertexShader_declared :: "string list" where
  "vertexShader_declared =
     [''uTime'', ''uProgress'', ''aScatterPos'', ''aTreePos'', ''aRandom'', ''vAlpha'', ''vColor'']"

definition vertexShader_provided :: "string list" where
  "vertexShader_provided =
     [''modelMatrix'', ''modelViewMatrix'', ''projectionMatrix'', ''viewMatrix'', ''normalMatrix'',
      ''cameraPosition'', ''position'', ''normal'', ''uv'', ''gl_Position'', ''gl_PointSize'']"

text \<open>The global names in \<open>main()\<close>, in the order in which its text first uses them.\<close>

definition main_globals :: "string list" where
  "main_globals =
     [''aScatterPos'', ''aTreePos'', ''uProgress'', ''uTime'', ''modelViewMatrix'', ''gl_PointSize'',
      ''gl_Position'', ''projectionMatrix'', ''vColor'', ''uColorLow'', ''uColorHigh'', ''aRandom'',
      ''uColorGold'', ''vAlpha'']"

definition vertexShader_compile :: "glsl_error option" where
  "vertexShader_compile =
     map_option UndeclaredIdentifier
       (find (\<lambda>name. name \<notin> set (vertexShader_declared @ vertexShader_provided)) main_globals)"

text \<open>The position the particle field computes for a vertex: none when the shader does not compile.\<close>

definition Foliage_vertexShader :: "vec3 \<Rightarrow> vec3 \<Rightarrow> real \<Rightarrow> real \<Rightarrow> glsl_error + vec3" where
  "Foliage_vertexShader aScatterPos aTreePos uProgress uTime =
     (case vertexShader_compile of
        Some e \<Rightarrow> Inl e
      | None \<Rightarrow> Inr (Foliage_main_pos aScatterPos aTreePos uProgress uTime))"

text \<open>
  The words of the specification, to compare \<open>main()\<close> with: the linear interpolation of two
  values by the raw progress, and the amplitude of the displacement, the factor that multiplies the
  noise value.
\<close>

definition spec_lerp :: "real \<Rightarrow> real \<Rightarrow> real \<Rightarrow> real" where
  "spec_lerp a b p = a + (b - a) * p"

definition displacement_amplitude :: "real \<Rightarrow> real" where
  "displacement_amplitude uProgress = floatIntensity uProgress * 0.5"

text \<open>The horizontal distance of a point from the y axis.\<close>

definition horizontal_radius :: "vec3 \<Rightarrow> real" where
  "horizontal_radius p = sqrt (vx p * vx p + vz p * vz p)"

text \<open>The vertex of a ribbon that a frame leaves at buffer index \<open>k\<close>, when its pass succeeds.\<close>

definition Ribbon_vertex :: "RibbonProps \<Rightarrow> RibbonPaths \<Rightarrow> real \<Rightarrow> real \<Rightarrow> nat \<Rightarrow> vec3" where
  "Ribbon_vertex props paths t time k =
     (case Ribbon_vertices props paths t time (k div 2) of
        Inl e \<Rightarrow> (0, 0, 0)
      | Inr (left, right) \<Rightarrow> if even k then left else right)"

text \<open>
  The squared length of a vector, and the vectors whose three coordinates all lie within a bound
  of zero.
\<close>

definition sumsq :: "vec3 \<Rightarrow> real" where
  "sumsq v = vx v * vx v + vy v * vy v + vz v * vz v"

definition coords_within :: "real \<Rightarrow> vec3 \<Rightarrow> bool" where
  "coords_within B v = (\<bar>vx v\<bar> \<le> B \<and> \<bar>vy v\<bar> \<le> B \<and> \<bar>vz v\<bar> \<le> B)"

section \<open>Properties of the Progress Controller\<close>

lemma useFrame_progress:
  "animationProgress (SceneContent_useFrame ts dt s) =
     (if \<bar>targetProgress ts - animationProgress s\<bar> > 1/1000
      then animationProgress s + (targetProgress ts - animationProgress s) * (2 * dt)
      else targetProgress ts)"
  by (simp add: SceneContent_useFrame_def Let_def split: option.splits)

lemma run_ticks_Nil: "run_ticks ts [] s = s"
  by (simp add: run_ticks_def)

lemma run_ticks_Cons: "run_ticks ts (dt # dts) s = run_ticks ts dts (SceneContent_useFrame ts dt s)"
  by (simp add: run_ticks_def)

lemma run_ticks_append: "run_ticks ts (xs @ ys) s = run_ticks ts ys (run_ticks ts xs s)"
  by (simp add: run_ticks_def)

lemma tick_up:
  assumes "0 < dt" "dt \<le> 1/2" "animationProgress s < 1"
  shows "animationProgress s < animationProgress (SceneContent_useFrame TREE_SHAPE dt s)"
    and "animationProgress (SceneContent_useFrame TREE_SHAPE dt s) \<le> 1"
proof -
  let ?c = "animationProgress s"
  have pos: "0 < (1 - ?c) * (2 * dt)" using assms by simp
  have "(1 - ?c) * (2 * dt) \<le> (1 - ?c) * 1"
    by (rule mult_left_mono) (use assms in simp_all)
  then have le: "?c + (1 - ?c) * (2 * dt) \<le> 1" by simp
  show "?c < animationProgress (SceneContent_useFrame TREE_SHAPE dt s)"
    using pos assms(3) by (simp add: useFrame_progress targetProgress_def)
  show "animationProgress (SceneContent_useFrame TREE_SHAPE dt s) \<le> 1"
    using le by (simp add: useFrame_progress targetProgress_def)
qed

lemma tick_stay: "animationProgress s = 1 \<Longrightarrow> animationProgress (SceneContent_useFrame TREE_SHAPE dt s) = 1"
  by (simp add: useFrame_progress targetProgress_def)

lemma run_stay: "animationProgress s = 1 \<Longrightarrow> animationProgress (run_ticks TREE_SHAPE dts s) = 1"
  by (induction dts arbitrary: s) (simp_all add: run_ticks_Nil run_ticks_Cons tick_stay)

lemma tick_snap:
  "animationProgress s \<le> 1 \<Longrightarrow> 1 - animationProgress s \<le> 1/1000 \<Longrightarrow>
   animationProgress (SceneContent_useFrame TREE_SHAPE dt s) = 1"
  by (simp add: useFrame_progress targetProgress_def)

lemma tick_gap:
  assumes "0 < d" "d \<le> dt" "dt \<le> 1/2" "animationProgress s \<le> 1"
  shows "0 \<le> 1 - animationProgress (SceneContent_useFrame TREE_SHAPE dt s)"
    and "1 - animationProgress (SceneContent_useFrame TREE_SHAPE dt s) \<le> (1 - 2 * d) * (1 - animationProgress s)"
proof -
  let ?c = "animationProgress s"
  have g: "0 \<le> 1 - ?c" using assms by simp
  have q: "0 \<le> 1 - 2 * dt" "1 - 2 * dt \<le> 1 - 2 * d" "0 \<le> 1 - 2 * d" using assms by simp_all
  have eq: "1 - (?c + (1 - ?c) * (2 * dt)) = (1 - 2 * dt) * (1 - ?c)" by (simp add: algebra_simps)
  have a: "0 \<le> (1 - 2 * dt) * (1 - ?c)" using q g by simp
  have b: "(1 - 2 * dt) * (1 - ?c) \<le> (1 - 2 * d) * (1 - ?c)"
    by (rule mult_right_mono) (use q g in simp_all)
  have c: "0 \<le> (1 - 2 * d) * (1 - ?c)" using q g by simp
  show "0 \<le> 1 - animationProgress (SceneContent_useFrame TREE_SHAPE dt s)"
    using a eq by (simp add: useFrame_progress targetProgress_def)
  show "1 - animationProgress (SceneContent_useFrame TREE_SHAPE dt s) \<le> (1 - 2 * d) * (1 - ?c)"
    using b c eq by (simp add: useFrame_progress targetProgress_def)
qed

lemma run_gap:
  assumes "0 < d" "\<forall>x\<in>set dts. d \<le> x \<and> x \<le> 1/2" "animationProgress s \<le> 1"
  shows "0 \<le> 1 - animationProgress (run_ticks TREE_SHAPE dts s) \<and>
         1 - animationProgress (run_ticks TREE_SHAPE dts s) \<le> (1 - 2 * d) ^ length dts * (1 - animationProgress s)"
  using assms(2,3)
proof (induction dts arbitrary: s)
  case Nil
  then show ?case by (simp add: run_ticks_Nil)
next
  case (Cons dt dts)
  let ?s' = "SceneContent_useFrame TREE_SHAPE dt s"
  have dt: "d \<le> dt" "dt \<le> 1/2" using Cons.prems(1) by simp_all
  have g0: "0 \<le> 1 - animationProgress ?s'"
    and g1: "1 - animationProgress ?s' \<le> (1 - 2 * d) * (1 - animationProgress s)"
    using tick_gap [OF assms(1) dt Cons.prems(2)] by simp_all
  have le1: "animationProgress ?s' \<le> 1" using g0 by simp
  have rest: "\<forall>x\<in>set dts. d \<le> x \<and> x \<le> 1/2" using Cons.prems(1) by simp
  have IH: "0 \<le> 1 - animationProgress (run_ticks TREE_SHAPE dts ?s')"
           "1 - animationProgress (run_ticks TREE_SHAPE dts ?s') \<le> (1 - 2 * d) ^ length dts * (1 - animationProgress ?s')"
    using Cons.IH [OF rest le1] by simp_all
  have q: "0 \<le> (1 - 2 * d) ^ length dts" using dt by simp
  have "(1 - 2 * d) ^ length dts * (1 - animationProgress ?s')
          \<le> (1 - 2 * d) ^ length dts * ((1 - 2 * d) * (1 - animationProgress s))"
    by (rule mult_left_mono [OF g1 q])
  then have "1 - animationProgress (run_ticks TREE_SHAPE dts ?s')
          \<le> (1 - 2 * d) ^ length dts * ((1 - 2 * d) * (1 - animationProgress s))"
    using IH(2) by (rule order_trans [rotated])
  also have "\<dots> = (1 - 2 * d) ^ length (dt # dts) * (1 - animationProgress s)"
    by simp
  finally show ?case using IH(1) by (simp only: run_ticks_Cons)
qed

lemma run_reaches_one:
  assumes "0 < d" "(1 - 2 * d) ^ n \<le> 1/1000" "animationProgress s = 0" "n < length dts"
    "\<forall>x\<in>set dts. d \<le> x \<and> x \<le> 1/2"
  shows "animationProgress (run_ticks TREE_SHAPE dts s) = 1"
proof -
  let ?pre = "take n dts"
  let ?s1 = "run_ticks TREE_SHAPE ?pre s"
  have split: "dts = ?pre @ (dts ! n) # drop (Suc n) dts"
    using assms(4) by (rule id_take_nth_drop)
  have pre: "\<forall>x\<in>set ?pre. d \<le> x \<and> x \<le> 1/2"
    using assms(5) by (meson in_set_takeD)
  have len: "length ?pre = n" using assms(4) by simp
  have gap: "0 \<le> 1 - animationProgress ?s1"
            "1 - animationProgress ?s1 \<le> (1 - 2 * d) ^ n * (1 - animationProgress s)"
    using run_gap [OF assms(1) pre, of s] assms(3) len by simp_all
  have "1 - animationProgress ?s1 \<le> 1/1000" using gap(2) assms(2,3) by simp
  then have "animationProgress (SceneContent_useFrame TREE_SHAPE (dts ! n) ?s1) = 1"
    using gap(1) by (intro tick_snap) simp_all
  then have "animationProgress (run_ticks TREE_SHAPE (drop (Suc n) dts)
               (SceneContent_useFrame TREE_SHAPE (dts ! n) ?s1)) = 1"
    by (rule run_stay)
  then have "animationProgress (run_ticks TREE_SHAPE (?pre @ (dts ! n) # drop (Suc n) dts) s) = 1"
    by (simp only: run_ticks_append run_ticks_Cons)
  then show ?thesis using split by simp
qed

lemma pow_below_eps:
  assumes "0 < d" "d \<le> 1/2"
  shows "\<exists>n. (1 - 2 * d) ^ n \<le> (1/1000 :: real)"
proof -
  have "\<exists>n. (1 - 2 * d) ^ n < 1/1000"
    by (rule real_arch_pow_inv) (use assms in simp_all)
  then show ?thesis by (meson less_imp_le)
qed

lemma tick_down:
  assumes "0 < dt" "0 < animationProgress s"
  shows "animationProgress (SceneContent_useFrame SCATTERED dt s) < animationProgress s"
    and "animationProgress s - animationProgress (SceneContent_useFrame SCATTERED dt s)
           \<le> max (2 * dt * animationProgress s) (1/1000)"
    and "dt \<le> 1/2 \<Longrightarrow> 0 \<le> animationProgress (SceneContent_useFrame SCATTERED dt s)"
proof -
  let ?c = "animationProgress s"
  have pos: "0 < ?c * (2 * dt)" using assms by simp
  show "animationProgress (SceneContent_useFrame SCATTERED dt s) < ?c"
    using pos assms(2) by (simp add: useFrame_progress targetProgress_def)
  show "?c - animationProgress (SceneContent_useFrame SCATTERED dt s) \<le> max (2 * dt * ?c) (1/1000)"
  proof (cases "1/1000 < ?c")
    case True
    then have "animationProgress (SceneContent_useFrame SCATTERED dt s) = ?c - 2 * dt * ?c"
      using assms(2) by (simp add: useFrame_progress targetProgress_def)
    then show ?thesis by simp
  next
    case False
    then have "animationProgress (SceneContent_useFrame SCATTERED dt s) = 0"
      using assms(2) by (simp add: useFrame_progress targetProgress_def)
    then show ?thesis using False by simp
  qed
  show "0 \<le> animationProgress (SceneContent_useFrame SCATTERED dt s)" if "dt \<le> 1/2"
  proof -
    have "?c * (2 * dt) \<le> ?c * 1"
      by (rule mult_left_mono) (use assms that in simp_all)
    then show ?thesis by (simp add: useFrame_progress targetProgress_def)
  qed
qed


text \<open>
  Claim C2, as the code has it. A tick with delta 1 takes the progress from 0 to 2, and the next
  one back to 0: the rise is free of overshoot only for deltas of at most 1/2. For every delta
  \<open>dt\<close> with \<open>0 < d \<le> dt \<le> 1/2\<close> and target 1: a tick strictly increases a progress below 1 and
  never takes it past 1; a progress of 1 stays 1; started at 0, the progress is exactly 1 after any
  sequence of more than \<open>n\<close> such ticks, where \<open>(1 - 2 d) ^ n \<le> 0.001\<close> (such an \<open>n\<close> exists).
  With the target set back to 0, the next tick starts from the progress reached, strictly decreases
  it, stays at or above 0, and moves it by at most \<open>2 dt\<close> times the progress, or by at most 0.001
  (the snap).
\<close>

theorem progress_rises_without_overshoot:
  assumes "0 < d" "d \<le> dt" "dt \<le> 1/2"
  shows "(animationProgress s < 1 \<longrightarrow>
            animationProgress s < animationProgress (SceneContent_useFrame TREE_SHAPE dt s) \<and>
            animationProgress (SceneContent_useFrame TREE_SHAPE dt s) \<le> 1)
       \<and> (animationProgress s = 1 \<longrightarrow> animationProgress (SceneContent_useFrame TREE_SHAPE dt s) = 1)
       \<and> (\<exists>k. (1 - 2 * d) ^ k \<le> 1/1000)
       \<and> ((1 - 2 * d) ^ n \<le> 1/1000 \<and> animationProgress s0 = 0 \<and> n < length dts \<and>
            (\<forall>x\<in>set dts. d \<le> x \<and> x \<le> 1/2) \<longrightarrow>
            animationProgress (run_ticks TREE_SHAPE dts s0) = 1)
       \<and> (0 < animationProgress s \<longrightarrow>
            animationProgress (SceneContent_useFrame SCATTERED dt s) < animationProgress s \<and>
            0 \<le> animationProgress (SceneContent_useFrame SCATTERED dt s) \<and>
            animationProgress s - animationProgress (SceneContent_useFrame SCATTERED dt s)
              \<le> max (2 * dt * animationProgress s) (1/1000))"
proof -
  have dt: "0 < dt" using assms by simp
  have d: "d \<le> 1/2" using assms by simp
  show ?thesis
    using tick_up [OF dt assms(3)] tick_stay pow_below_eps [OF assms(1) d]
      run_reaches_one [OF assms(1)] tick_down [OF dt] assms(3)
    by blast
qed

text \<open>The theorem of C2 at delta 1/4: the hypotheses hold and the values are those of the code.\<close>

theorem progress_rises_without_overshoot_witness:
  "(0::real) < 1/4 \<and> (1/4::real) \<le> 1/4 \<and> (1/4::real) \<le> 1/2
   \<and> animationProgress \<lparr>animationProgress = 1/2, groupRotationY = None\<rparr> < 1
   \<and> 0 < animationProgress \<lparr>animationProgress = 1/2, groupRotationY = None\<rparr>
   \<and> (1 - 2 * (1/4 :: real)) ^ 10 \<le> 1/1000
   \<and> animationProgress \<lparr>animationProgress = 0, groupRotationY = None\<rparr> = 0
   \<and> 10 < length [1/4, 1/4, 1/4, 1/4, 1/4, 1/4, 1/4, 1/4, 1/4, 1/4, 1/4 :: real]
   \<and> set [1/4, 1/4, 1/4, 1/4, 1/4, 1/4, 1/4, 1/4, 1/4, 1/4, 1/4 :: real] \<subseteq> {1/4 .. 1/2}
   \<and> animationProgress (SceneContent_useFrame TREE_SHAPE (1/4)
         \<lparr>animationProgress = 1/2, groupRotationY = None\<rparr>) = 3/4
   \<and> animationProgress (run_ticks TREE_SHAPE [1/4, 1/4, 1/4, 1/4, 1/4, 1/4, 1/4, 1/4, 1/4, 1/4, 1/4]
         \<lparr>animationProgress = 0, groupRotationY = None\<rparr>) = 1
   \<and> animationProgress (SceneContent_useFrame SCATTERED (1/4)
         \<lparr>animationProgress = 1/2, groupRotationY = None\<rparr>) = 1/4"
  using progress_rises_without_overshoot [of "1/4" "1/4"
      "\<lparr>animationProgress = 1/2, groupRotationY = None\<rparr>" 10
      "\<lparr>animationProgress = 0, groupRotationY = None\<rparr>"
      "[1/4, 1/4, 1/4, 1/4, 1/4, 1/4, 1/4, 1/4, 1/4, 1/4, 1/4]"]
  by (simp add: SceneContent_useFrame_def targetProgress_def run_ticks_def power_divide)

text \<open>Claim C2 as stated fails at delta 1: the progress overshoots to 2 and then falls back to 0.\<close>

theorem progress_rise_overshoot_counterexample:
  "(0::real) < 1 \<and> animationProgress \<lparr>animationProgress = 0, groupRotationY = None\<rparr> = 0
   \<and> animationProgress (SceneContent_useFrame TREE_SHAPE 1
         \<lparr>animationProgress = 0, groupRotationY = None\<rparr>) = 2
   \<and> animationProgress (SceneContent_useFrame TREE_SHAPE 1 (SceneContent_useFrame TREE_SHAPE 1
         \<lparr>animationProgress = 0, groupRotationY = None\<rparr>)) = 0"
  by (simp add: SceneContent_useFrame_def targetProgress_def)

text \<open>
  Claim C3, as the code has it: for every delta \<open>dt\<close> with \<open>0 < dt \<le> 1/2\<close> and either target,
  a tick takes a progress in [0,1] to a progress in [0,1].
\<close>

theorem progress_in_unit_interval:
  assumes "0 < dt" "dt \<le> 1/2" "0 \<le> animationProgress s" "animationProgress s \<le> 1"
  shows "0 \<le> animationProgress (SceneContent_useFrame ts dt s) \<and>
         animationProgress (SceneContent_useFrame ts dt s) \<le> 1"
proof -
  let ?c = "animationProgress s"
  have d: "0 \<le> 2 * dt" "2 * dt \<le> 1" using assms by simp_all
  have up: "0 \<le> ?c + (1 - ?c) * (2 * dt)" "?c + (1 - ?c) * (2 * dt) \<le> 1"
  proof -
    have "0 \<le> (1 - ?c) * (2 * dt)" using assms d by simp
    then show "0 \<le> ?c + (1 - ?c) * (2 * dt)" using assms by linarith
    have "(1 - ?c) * (2 * dt) \<le> (1 - ?c) * 1"
      by (rule mult_left_mono) (use assms d in simp_all)
    then show "?c + (1 - ?c) * (2 * dt) \<le> 1" by simp
  qed
  have down: "0 \<le> ?c + (0 - ?c) * (2 * dt)" "?c + (0 - ?c) * (2 * dt) \<le> 1"
  proof -
    have "?c * (2 * dt) \<le> ?c * 1"
      by (rule mult_left_mono) (use assms d in simp_all)
    then show "0 \<le> ?c + (0 - ?c) * (2 * dt)" by simp
    have h: "0 \<le> ?c * (2 * dt)" using assms d by simp
    have "?c + (0 - ?c) * (2 * dt) = ?c - ?c * (2 * dt)" by simp
    then show "?c + (0 - ?c) * (2 * dt) \<le> 1" using assms h by linarith
  qed
  show ?thesis
    using up down by (cases ts) (simp_all add: useFrame_progress targetProgress_def)
qed

text \<open>The theorem of C3 at delta 1/4 and progress 1/2.\<close>

theorem progress_in_unit_interval_witness:
  "0 \<le> animationProgress (SceneContent_useFrame TREE_SHAPE (1/4) \<lparr>animationProgress = 1/2, groupRotationY = None\<rparr>) \<and>
   animationProgress (SceneContent_useFrame TREE_SHAPE (1/4) \<lparr>animationProgress = 1/2, groupRotationY = None\<rparr>) = 3/4"
  using progress_in_unit_interval [of "1/4" "\<lparr>animationProgress = 1/2, groupRotationY = None\<rparr>" TREE_SHAPE]
  by (simp add: SceneContent_useFrame_def targetProgress_def)

text \<open>Claim C3 as stated fails at delta 1: from progress 0 in [0,1] the tick gives 2.\<close>

theorem progress_overshoot_counterexample:
  "0 \<le> animationProgress \<lparr>animationProgress = 0, groupRotationY = None\<rparr> \<and>
   animationProgress \<lparr>animationProgress = 0, groupRotationY = None\<rparr> \<le> 1 \<and> (0::real) < 1 \<and>
   \<not> animationProgress (SceneContent_useFrame TREE_SHAPE 1 \<lparr>animationProgress = 0, groupRotationY = None\<rparr>) \<le> 1"
  by (simp add: SceneContent_useFrame_def targetProgress_def)

section \<open>Properties of the samplers\<close>

lemma sphere_norm:
  "(r * sin p * cos t) * (r * sin p * cos t) + (r * sin p * sin t) * (r * sin p * sin t)
     + (r * cos p) * (r * cos p) = r * r" for r p t :: real
proof -
  have ct: "cos t * cos t + sin t * sin t = 1"
    using sin_cos_squared_add2 [of t] by (simp add: power2_eq_square)
  have cp: "sin p * sin p + cos p * cos p = 1"
    using sin_cos_squared_add [of p] by (simp add: power2_eq_square)
  have "(r * sin p * cos t) * (r * sin p * cos t) + (r * sin p * sin t) * (r * sin p * sin t)
          + (r * cos p) * (r * cos p)
        = r * r * (sin p * sin p * (cos t * cos t + sin t * sin t) + cos p * cos p)"
    by (simp only: distrib_left mult_ac add_ac)
  also have "\<dots> = r * r" by (simp only: ct cp mult_1_right)
  finally show ?thesis .
qed

lemma scatter_length: "vlength (getScatterPosition radius u v w) = \<bar>root 3 w * radius\<bar>"
proof -
  have "vlength (getScatterPosition radius u v w) = sqrt ((root 3 w * radius) * (root 3 w * radius))"
    unfolding vlength_def getScatterPosition_def Let_def vx_def vy_def vz_def fst_conv snd_conv
    by (simp only: sphere_norm)
  then show ?thesis by simp
qed

text \<open>
  Claim C8: for every radius \<open>R > 0\<close> and every three draws in [0,1), the Scatter Sampler
  returns the point at radial distance \<open>r = R * cbrt w\<close> in the direction of
  \<open>theta = 2 pi u\<close> and \<open>phi = acos (2 v - 1)\<close>; its Euclidean length is \<open>r\<close>, at most \<open>R\<close>.
\<close>

theorem scatter_within_radius:
  assumes "0 < radius" "0 \<le> u" "u < 1" "0 \<le> v" "v < 1" "0 \<le> w" "w < 1"
  shows "getScatterPosition radius u v w =
           (radius * root 3 w * sin (arccos (2 * v - 1)) * cos (2 * pi * u),
            radius * root 3 w * sin (arccos (2 * v - 1)) * sin (2 * pi * u),
            radius * root 3 w * cos (arccos (2 * v - 1)))
       \<and> vlength (getScatterPosition radius u v w) = radius * root 3 w
       \<and> vlength (getScatterPosition radius u v w) \<le> radius"
proof -
  have r0: "0 \<le> root 3 w" using assms(6) by simp
  have "root 3 w < root 3 1" using assms(7) by (simp only: real_root_less_iff zero_less_numeral)
  then have r1: "root 3 w \<le> 1" by simp
  have len: "vlength (getScatterPosition radius u v w) = radius * root 3 w"
    using r0 assms(1) by (simp add: scatter_length abs_mult mult.commute)
  have "radius * root 3 w \<le> radius * 1"
    by (rule mult_left_mono) (use r1 assms(1) in simp_all)
  then show ?thesis using len by (simp add: getScatterPosition_def Let_def mult.commute)
qed

lemma root3_eighth: "root 3 (1/8) = 1/2"
proof -
  have "root 3 ((1/2) ^ 3) = 1/2" by (rule real_root_power_cancel) simp_all
  then show ?thesis by (simp add: power3_eq_cube)
qed

text \<open>
  The theorem of C8 at radius 12 and the draws 0, 1/2, 1/8: the point (6, 0, 0), of length 6.
\<close>

theorem scatter_within_radius_witness:
  "(0::real) < 12 \<and> (0::real) \<le> 0 \<and> (0::real) < 1 \<and> (0::real) \<le> 1/2 \<and> (1/2::real) < 1
   \<and> (0::real) \<le> 1/8 \<and> (1/8::real) < 1
   \<and> getScatterPosition 12 0 (1/2) (1/8) = (6, 0, 0)
   \<and> vlength (getScatterPosition 12 0 (1/2) (1/8)) = 6
   \<and> vlength (getScatterPosition 12 0 (1/2) (1/8)) \<le> 12"
  using scatter_within_radius [of 12 0 "1/2" "1/8"]
  by (simp add: root3_eighth vlength_def vx_def vy_def vz_def)

lemma getTreePosition_value:
  assumes "0 < height" "0 < total'"
  shows "getTreePosition height baseRadius yOffset idx total' w =
           Inr ((1 - real idx / real total') * baseRadius * sqrt w * cos (real idx * goldenAngle),
                real idx / real total' * height - yOffset,
                (1 - real idx / real total') * baseRadius * sqrt w * sin (real idx * goldenAngle))"
  using assms by (simp add: getTreePosition_def Let_def)

lemma horizontal_radius_polar: "horizontal_radius (r * cos t, y, r * sin t) = \<bar>r\<bar>"
proof -
  have "(r * cos t) * (r * cos t) + (r * sin t) * (r * sin t) = r * r * (cos t * cos t + sin t * sin t)"
    by (simp only: distrib_left mult_ac)
  also have "\<dots> = r * r"
    using sin_cos_squared_add2 [of t] by (simp add: power2_eq_square)
  finally show ?thesis
    by (simp add: horizontal_radius_def vx_def vz_def)
qed

lemma same_sign_radii:
  fixes a b c :: real
  assumes "0 \<le> a" "0 \<le> c"
  shows "\<bar>a * b\<bar> * (c * b) = \<bar>c * b\<bar> * (a * b)"
  using assms by (simp add: abs_mult mult_ac)

lemma rotate_x:
  fixes ap aq rp rq cg sg ct st :: real
  assumes "ap * rq = aq * rp"
  shows "ap * (rq * (cg * ct - sg * st)) = aq * (cg * (rp * ct) - sg * (rp * st))"
proof -
  have "ap * (rq * (cg * ct - sg * st)) = (ap * rq) * (cg * ct - sg * st)" by simp
  also have "\<dots> = (aq * rp) * (cg * ct - sg * st)" by (simp only: assms)
  also have "\<dots> = aq * (cg * (rp * ct) - sg * (rp * st))" by (simp add: algebra_simps)
  finally show ?thesis .
qed

lemma rotate_z:
  fixes ap aq rp rq cg sg ct st :: real
  assumes "ap * rq = aq * rp"
  shows "ap * (rq * (sg * ct + cg * st)) = aq * (sg * (rp * ct) + cg * (rp * st))"
proof -
  have "ap * (rq * (sg * ct + cg * st)) = (ap * rq) * (sg * ct + cg * st)" by simp
  also have "\<dots> = (aq * rp) * (sg * ct + cg * st)" by (simp only: assms)
  also have "\<dots> = aq * (sg * (rp * ct) + cg * (rp * st))" by (simp add: algebra_simps)
  finally show ?thesis .
qed

lemma tree_spiral_turn:
  assumes "0 < height" "0 < total'" "i \<le> j" "j < total'" "0 \<le> wi" "0 \<le> wj"
  shows "\<exists>p q. getTreePosition height baseRadius yOffset i total' wi = Inr p
             \<and> getTreePosition height baseRadius yOffset j total' wj = Inr q
             \<and> vy p = real i / real total' * height - yOffset
             \<and> vy p \<le> vy q
             \<and> (j = Suc i \<longrightarrow>
                  horizontal_radius p * vx q
                    = horizontal_radius q * (cos goldenAngle * vx p - sin goldenAngle * vz p) \<and>
                  horizontal_radius p * vz q
                    = horizontal_radius q * (sin goldenAngle * vx p + cos goldenAngle * vz p))"
proof -
  let ?a = "1 - real i / real total'"
  let ?c = "1 - real j / real total'"
  let ?rp = "?a * baseRadius * sqrt wi"
  let ?rq = "?c * baseRadius * sqrt wj"
  let ?t = "real i * goldenAngle"
  let ?p = "(?rp * cos ?t, real i / real total' * height - yOffset, ?rp * sin ?t)"
  let ?q = "(?rq * cos (real j * goldenAngle), real j / real total' * height - yOffset,
             ?rq * sin (real j * goldenAngle))"
  have p: "getTreePosition height baseRadius yOffset i total' wi = Inr ?p"
    by (rule getTreePosition_value [OF assms(1,2)])
  have q: "getTreePosition height baseRadius yOffset j total' wj = Inr ?q"
    by (rule getTreePosition_value [OF assms(1,2)])
  have "real i / real total' \<le> real j / real total'"
    using assms(2,3) by (simp add: divide_right_mono)
  then have "real i / real total' * height \<le> real j / real total' * height"
    by (rule mult_right_mono) (use assms(1) in simp)
  then have mono: "vy ?p \<le> vy ?q" by (simp add: vy_def)
  have golden: "horizontal_radius ?p * vx ?q
                  = horizontal_radius ?q * (cos goldenAngle * vx ?p - sin goldenAngle * vz ?p) \<and>
                horizontal_radius ?p * vz ?q
                  = horizontal_radius ?q * (sin goldenAngle * vx ?p + cos goldenAngle * vz ?p)"
    if j: "j = Suc i"
  proof -
    have "real i / real total' \<le> 1" "real j / real total' \<le> 1"
      using assms(2,3,4) by simp_all
    then have a0: "0 \<le> ?a * sqrt wi" and c0: "0 \<le> ?c * sqrt wj"
      using assms(5,6) by simp_all
    have rp: "?rp = (?a * sqrt wi) * baseRadius" and rq: "?rq = (?c * sqrt wj) * baseRadius"
      by simp_all
    have sign: "\<bar>?rp\<bar> * ?rq = \<bar>?rq\<bar> * ?rp"
      unfolding rp rq by (rule same_sign_radii [OF a0 c0])
    have tj: "real j * goldenAngle = ?t + goldenAngle"
      using j by (simp add: algebra_simps)
    have hp: "horizontal_radius ?p = \<bar>?rp\<bar>"
      by (rule horizontal_radius_polar)
    have hq: "horizontal_radius (?rq * cos (?t + goldenAngle), real j / real total' * height - yOffset,
                ?rq * sin (?t + goldenAngle)) = \<bar>?rq\<bar>"
      by (rule horizontal_radius_polar)
    have cs: "cos (?t + goldenAngle) = cos goldenAngle * cos ?t - sin goldenAngle * sin ?t"
      by (simp add: cos_add mult.commute)
    have sn: "sin (?t + goldenAngle) = sin goldenAngle * cos ?t + cos goldenAngle * sin ?t"
      by (simp add: sin_add mult.commute)
    have x: "\<bar>?rp\<bar> * (?rq * cos (?t + goldenAngle))
               = \<bar>?rq\<bar> * (cos goldenAngle * (?rp * cos ?t) - sin goldenAngle * (?rp * sin ?t))"
      unfolding cs by (rule rotate_x [OF sign])
    have z: "\<bar>?rp\<bar> * (?rq * sin (?t + goldenAngle))
               = \<bar>?rq\<bar> * (sin goldenAngle * (?rp * cos ?t) + cos goldenAngle * (?rp * sin ?t))"
      unfolding sn by (rule rotate_z [OF sign])
    show ?thesis
      unfolding tj by (simp only: hp hq vx_def vz_def fst_conv snd_conv x z simp_thms)
  qed
  have "vy ?p = real i / real total' * height - yOffset" by (simp add: vy_def)
  with p q mono golden show ?thesis by blast
qed

lemma golden_angle_range: "pi / 2 < pi * (3 - sqrt 5) \<and> pi * (3 - sqrt 5) < pi"
proof -
  have lo: "2 < sqrt 5"
    using real_sqrt_less_iff [of 4 5] by simp
  have hi: "sqrt 5 < 5/2"
  proof -
    have "sqrt 5 < sqrt ((5/2)\<^sup>2)" by (simp add: power2_eq_square)
    then show ?thesis by simp
  qed
  have a: "1/2 < 3 - sqrt 5" using hi by simp
  have b: "3 - sqrt 5 < 1" using lo by simp
  have "pi * (1/2) < pi * (3 - sqrt 5)"
    by (rule mult_strict_left_mono [OF a pi_gt_zero])
  moreover have "pi * (3 - sqrt 5) < pi * 1"
    by (rule mult_strict_left_mono [OF b pi_gt_zero])
  ultimately show ?thesis by simp
qed

text \<open>
  Claim C9: for \<open>height > 0\<close>, \<open>total > 0\<close> and indices \<open>i \<le> j < total\<close> (and draws that are
  not negative), the Tree Spiral Sampler returns points whose y-coordinates are non-decreasing in
  the index, \<open>y = (i / total) * height - yOffset\<close>; and for consecutive indices the horizontal
  direction of the second point is that of the first, turned by the golden angle
  \<open>pi * (3 - sqrt 5)\<close>: with \<open>rho\<close> the distance from the y axis,
  \<open>rho p * (x q, z q) = rho q * R (x p, z p)\<close>, where \<open>R\<close> is the rotation by
  \<open>pi * (3 - sqrt 5)\<close>. That angle is no multiple of a full turn: it lies strictly between
  \<open>pi / 2\<close> and \<open>pi\<close>.
\<close>

theorem tree_spiral_monotone_golden:
  assumes "0 < height" "0 < total'" "i \<le> j" "j < total'" "0 \<le> wi" "0 \<le> wj"
  shows "\<exists>p q. getTreePosition height baseRadius yOffset i total' wi = Inr p
             \<and> getTreePosition height baseRadius yOffset j total' wj = Inr q
             \<and> vy p = real i / real total' * height - yOffset
             \<and> vy p \<le> vy q
             \<and> (j = Suc i \<longrightarrow>
                  horizontal_radius p * vx q
                    = horizontal_radius q
                        * (cos (pi * (3 - sqrt 5)) * vx p - sin (pi * (3 - sqrt 5)) * vz p) \<and>
                  horizontal_radius p * vz q
                    = horizontal_radius q
                        * (sin (pi * (3 - sqrt 5)) * vx p + cos (pi * (3 - sqrt 5)) * vz p))
             \<and> pi / 2 < pi * (3 - sqrt 5) \<and> pi * (3 - sqrt 5) < pi"
proof -
  have "\<exists>p q. getTreePosition height baseRadius yOffset i total' wi = Inr p
             \<and> getTreePosition height baseRadius yOffset j total' wj = Inr q
             \<and> vy p = real i / real total' * height - yOffset
             \<and> vy p \<le> vy q
             \<and> (j = Suc i \<longrightarrow>
                  horizontal_radius p * vx q
                    = horizontal_radius q
                        * (cos (pi * (3 - sqrt 5)) * vx p - sin (pi * (3 - sqrt 5)) * vz p) \<and>
                  horizontal_radius p * vz q
                    = horizontal_radius q
                        * (sin (pi * (3 - sqrt 5)) * vx p + cos (pi * (3 - sqrt 5)) * vz p))"
    using tree_spiral_turn [OF assms, of baseRadius yOffset] unfolding goldenAngle_def .
  moreover have "pi / 2 < pi * (3 - sqrt 5) \<and> pi * (3 - sqrt 5) < pi"
    by (rule golden_angle_range)
  ultimately show ?thesis by blast
qed

text \<open>
  The theorem of C9 for the ornaments' cone (height 11, base radius 4.5, offset 6), indices 0 and
  1 of 2.
\<close>

theorem tree_spiral_monotone_golden_witness:
  "(0::real) < 11 \<and> (0::nat) < 2 \<and> (0::nat) \<le> Suc 0 \<and> Suc 0 < 2 \<and> (0::real) \<le> 1
   \<and> getTreePosition 11 (9/2) 6 0 2 1 = Inr (9/2, -6, 0)
   \<and> getTreePosition 11 (9/2) 6 (Suc 0) 2 1
       = Inr (9/4 * cos (pi * (3 - sqrt 5)), -1/2, 9/4 * sin (pi * (3 - sqrt 5)))
   \<and> vy (9/2, -6, 0 :: real)
       \<le> vy (9/4 * cos (pi * (3 - sqrt 5)), -1/2 :: real, 9/4 * sin (pi * (3 - sqrt 5)))
   \<and> horizontal_radius (9/2, -6, 0)
         * vx (9/4 * cos (pi * (3 - sqrt 5)), -1/2 :: real, 9/4 * sin (pi * (3 - sqrt 5)))
        = horizontal_radius (9/4 * cos (pi * (3 - sqrt 5)), -1/2, 9/4 * sin (pi * (3 - sqrt 5)))
            * (cos (pi * (3 - sqrt 5)) * vx (9/2, -6 :: real, 0 :: real)
               - sin (pi * (3 - sqrt 5)) * vz (9/2 :: real, -6 :: real, 0))"
proof -
  have p: "getTreePosition 11 (9/2) 6 0 2 1 = Inr (9/2, -6, 0)"
    by (simp add: getTreePosition_def)
  have q: "getTreePosition 11 (9/2) 6 (Suc 0) 2 1
             = Inr (9/4 * cos (pi * (3 - sqrt 5)), -1/2, 9/4 * sin (pi * (3 - sqrt 5)))"
    by (simp add: getTreePosition_def goldenAngle_def Let_def)
  show ?thesis
    using tree_spiral_monotone_golden [where height = 11 and total' = 2 and i = 0 and j = "Suc 0"
        and baseRadius = "9/2" and yOffset = 6 and wi = 1 and wj = 1]
    unfolding p q by (simp add: vy_def)
qed

section \<open>Properties of the Particle Field\<close>

lemma mix_spec_lerp: "mix a b p = spec_lerp a b p"
  by (simp add: mix_def spec_lerp_def algebra_simps)

lemma displacement_amplitude_eq: "displacement_amplitude p = 1 - (19/20) * p"
  by (simp add: displacement_amplitude_def floatIntensity_def mix_def algebra_simps)

text \<open>
  What the text of \<open>main()\<close> sets out to compute is what the specification says: the linear
  interpolation by the raw progress, displaced along y by the noise value times an amplitude that
  falls from 1 at progress 0 to 0.05 at progress 1.
\<close>

lemma main_pos_lerp_plus_noise:
  "Foliage_main_pos aScatterPos aTreePos uProgress uTime =
     (spec_lerp (vx aScatterPos) (vx aTreePos) uProgress,
      spec_lerp (vy aScatterPos) (vy aTreePos) uProgress
        + snoise (spec_lerp (vx aScatterPos) (vx aTreePos) uProgress * 0.5 + uTime * 0.5,
                  spec_lerp (vy aScatterPos) (vy aTreePos) uProgress * 0.5 + uTime * 0.5,
                  spec_lerp (vz aScatterPos) (vz aTreePos) uProgress * 0.5 + uTime * 0.5)
          * displacement_amplitude uProgress,
      spec_lerp (vz aScatterPos) (vz aTreePos) uProgress)"
  unfolding Foliage_main_pos_def Let_def mix3_def mix_spec_lerp displacement_amplitude_def
  by (simp add: vx_def vy_def vz_def)

lemma displacement_amplitude_falls:
  "displacement_amplitude 0 = 1 \<and> displacement_amplitude 1 = 1/20
   \<and> (p1 < p2 \<longrightarrow> displacement_amplitude p2 < displacement_amplitude p1)"
  by (simp add: displacement_amplitude_eq)

lemma vertexShader_compile_fails:
  "vertexShader_compile = Some (UndeclaredIdentifier ''uColorLow'')"
  by (simp add: vertexShader_compile_def main_globals_def vertexShader_declared_def
      vertexShader_provided_def)

text \<open>
  Claim C4 says that the position of every particle, at every progress and time, is the
  interpolation of its scatter and tree positions displaced by the noise field. The code computes
  no position: \<open>main()\<close> uses \<open>uColorLow\<close> (and \<open>uColorHigh\<close>, \<open>uColorGold\<close>), which the shader
  text never declares, so for every particle, progress and time the vertex shader ends in the
  compile error for \<open>uColorLow\<close>.
\<close>

theorem foliage_shader_undeclared_uniform:
  "Foliage_vertexShader aScatterPos aTreePos uProgress uTime = Inl (UndeclaredIdentifier ''uColorLow'')
   \<and> Foliage_vertexShader (0, 0, 0) (2, 2, 2) (1/2) 0 = Inl (UndeclaredIdentifier ''uColorLow'')
   \<and> ''uColorLow'' \<notin> set (vertexShader_declared @ vertexShader_provided)
   \<and> ''uColorHigh'' \<notin> set (vertexShader_declared @ vertexShader_provided)
   \<and> ''uColorGold'' \<notin> set (vertexShader_declared @ vertexShader_provided)"
  by (simp add: Foliage_vertexShader_def vertexShader_compile_fails vertexShader_declared_def
      vertexShader_provided_def)

section \<open>Properties of the Instanced Ornament Animator\<close>

lemma Ornaments_item_indep: "Ornaments_item item t time obj = Ornaments_item item t time obj0"
  by (simp add: Ornaments_item_def Let_def)

lemma forEach_length: "length (snd (Ornaments_forEach data i t time (obj, m))) = length m"
  by (induction data arbitrary: i obj m) (simp_all add: Let_def)

lemma forEach_nth:
  "k < length m \<Longrightarrow>
   snd (Ornaments_forEach data i t time (obj, m)) ! k =
     (if i \<le> k \<and> k < i + length data then Ornaments_item (data ! (k - i)) t time obj0 else m ! k)"
proof (induction data arbitrary: i obj m)
  case Nil
  then show ?case by auto
next
  case (Cons item rest)
  let ?o = "Ornaments_item item t time obj"
  have len: "k < length (m[i := ?o])" using Cons.prems by simp
  have step: "snd (Ornaments_forEach (item # rest) i t time (obj, m)) ! k =
        (if Suc i \<le> k \<and> k < Suc i + length rest then Ornaments_item (rest ! (k - Suc i)) t time obj0
         else m[i := ?o] ! k)"
    using Cons.IH [OF len, of "Suc i" ?o] by (simp add: Let_def)
  show ?case
  proof (cases "k = i")
    case True
    then show ?thesis
      using Cons.prems step Ornaments_item_indep [of item t time obj obj0] by simp
  next
    case False
    then show ?thesis
      using step by (auto simp: nth_Cons' Suc_diff_Suc dest: Suc_leI)
  qed
qed

lemma forEach_fst:
  "fst (Ornaments_forEach data i t time (obj, m)) =
     (if data = [] then obj else Ornaments_item (last data) t time obj0)"
proof (induction data arbitrary: i obj m)
  case Nil
  then show ?case by simp
next
  case (Cons item rest)
  show ?case
    using Cons.IH [of "Suc i" "Ornaments_item item t time obj" "m[i := Ornaments_item item t time obj]"]
      Ornaments_item_indep [of item t time obj obj0]
    by (simp add: Let_def)
qed

lemma useFrame_instance:
  assumes "instanceMatrix st = Some m"
  shows "instanceMatrix (Ornaments_useFrame data progress time st) =
           Some (snd (Ornaments_forEach data 0 (smoothstep progress) time (tempObject st, m)))"
  using assms by (simp add: Ornaments_useFrame_def Let_def split: prod.splits)

lemma useFrame_entry:
  assumes "instanceMatrix st = Some m" "i < length data" "length data \<le> length m"
  shows "\<exists>m'. instanceMatrix (Ornaments_useFrame data progress time st) = Some m' \<and>
              length m' = length m \<and>
              m' ! i = Ornaments_item (data ! i) (smoothstep progress) time obj0"
proof -
  have "i < length m" using assms(2,3) by simp
  then have "snd (Ornaments_forEach data 0 (smoothstep progress) time (tempObject st, m)) ! i =
      Ornaments_item (data ! i) (smoothstep progress) time obj0"
    using assms(2) by (simp add: forEach_nth [where ?obj0.0 = obj0])
  then show ?thesis
    using useFrame_instance [OF assms(1)] forEach_length by simp
qed

lemma item_position_tree:
  "obj_position (Ornaments_item item (smoothstep 1) time obj) = treePosition item"
  by (simp add: Ornaments_item_def smoothstep_def lerp_def Let_def vx_def vy_def vz_def)

lemma item_position_scatter:
  "obj_position (Ornaments_item item (smoothstep 0) time obj) =
     (vx (scatterPosition item),
      vy (scatterPosition item) + sin (time * speed item + phase item) * 0.5,
      vz (scatterPosition item))"
  by (simp add: Ornaments_item_def smoothstep_def lerp_def Let_def)

text \<open>
  Claim C1, as the code has it. For every instance \<open>i\<close> of a mounted mesh whose buffer holds the
  instances, and every time: at progress exactly 1 the position written for the instance is its
  tree position, exactly; at progress exactly 0 its x and z are those of the scatter position, and
  its y is the scatter y plus the float term \<open>sin (time * speed + phase) * 0.5\<close>, which is at its
  full amplitude there: y is within 0.5 of the scatter y, no closer in general.
\<close>

theorem ornament_position_at_ends:
  assumes "instanceMatrix st = Some m" "i < length data" "length data \<le> length m"
  shows "(\<exists>m'. instanceMatrix (Ornaments_useFrame data 1 time st) = Some m' \<and>
               obj_position (m' ! i) = treePosition (data ! i))
       \<and> (\<exists>m'. instanceMatrix (Ornaments_useFrame data 0 time st) = Some m' \<and>
               vx (obj_position (m' ! i)) = vx (scatterPosition (data ! i)) \<and>
               vz (obj_position (m' ! i)) = vz (scatterPosition (data ! i)) \<and>
               vy (obj_position (m' ! i)) =
                 vy (scatterPosition (data ! i)) + sin (time * speed (data ! i) + phase (data ! i)) * 0.5 \<and>
               \<bar>vy (obj_position (m' ! i)) - vy (scatterPosition (data ! i))\<bar> \<le> 1/2)"
proof -
  let ?obj0 = "tempObject st"
  obtain m1 where m1: "instanceMatrix (Ornaments_useFrame data 1 time st) = Some m1"
      "m1 ! i = Ornaments_item (data ! i) (smoothstep 1) time ?obj0"
    using useFrame_entry [OF assms, of 1 time ?obj0] by blast
  obtain m0 where m0: "instanceMatrix (Ornaments_useFrame data 0 time st) = Some m0"
      "m0 ! i = Ornaments_item (data ! i) (smoothstep 0) time ?obj0"
    using useFrame_entry [OF assms, of 0 time ?obj0] by blast
  have tree: "obj_position (m1 ! i) = treePosition (data ! i)"
    unfolding m1(2) by (rule item_position_tree)
  have sc: "obj_position (m0 ! i) =
     (vx (scatterPosition (data ! i)),
      vy (scatterPosition (data ! i)) + sin (time * speed (data ! i) + phase (data ! i)) * 0.5,
      vz (scatterPosition (data ! i)))"
    unfolding m0(2) by (rule item_position_scatter)
  have "\<bar>sin (time * speed (data ! i) + phase (data ! i))\<bar> \<le> 1" by (rule abs_sin_le_one)
  then have bound: "\<bar>sin (time * speed (data ! i) + phase (data ! i)) * 0.5\<bar> \<le> 1/2"
    by (simp add: abs_mult)
  have second: "vx (obj_position (m0 ! i)) = vx (scatterPosition (data ! i)) \<and>
               vz (obj_position (m0 ! i)) = vz (scatterPosition (data ! i)) \<and>
               vy (obj_position (m0 ! i)) =
                 vy (scatterPosition (data ! i)) + sin (time * speed (data ! i) + phase (data ! i)) * 0.5 \<and>
               \<bar>vy (obj_position (m0 ! i)) - vy (scatterPosition (data ! i))\<bar> \<le> 1/2"
    unfolding sc using bound by (simp add: vx_def vy_def vz_def)
  show ?thesis using m1(1) tree m0(1) second by blast
qed


text \<open>
  The theorem of C1 for one instance at time 0 with phase 0: the float term vanishes, and the
  positions are the tree and the scatter position.
\<close>

theorem ornament_position_at_ends_witness:
  "instanceMatrix \<lparr>tempObject = \<lparr>obj_position = (0, 0, 0), obj_rotation = (0, 0, 0), obj_scale = (0, 0, 0)\<rparr>,
        instanceMatrix = Some [\<lparr>obj_position = (0, 0, 0), obj_rotation = (0, 0, 0), obj_scale = (0, 0, 0)\<rparr>]\<rparr>
     = Some [\<lparr>obj_position = (0, 0, 0), obj_rotation = (0, 0, 0), obj_scale = (0, 0, 0)\<rparr>]
   \<and> 0 < length [\<lparr>treePosition = (1, 2, 3), scatterPosition = (4, 5, 6), rotation = (0, 0, 0),
                   scale = 1, speed = 1/2, phase = 0\<rparr>]
   \<and> instanceMatrix (Ornaments_useFrame
         [\<lparr>treePosition = (1, 2, 3), scatterPosition = (4, 5, 6), rotation = (0, 0, 0),
           scale = 1, speed = 1/2, phase = 0\<rparr>] 1 0
         \<lparr>tempObject = \<lparr>obj_position = (0, 0, 0), obj_rotation = (0, 0, 0), obj_scale = (0, 0, 0)\<rparr>,
          instanceMatrix = Some [\<lparr>obj_position = (0, 0, 0), obj_rotation = (0, 0, 0), obj_scale = (0, 0, 0)\<rparr>]\<rparr>)
       = Some [\<lparr>obj_position = (1, 2, 3), obj_rotation = (0, 0, 0), obj_scale = (1, 1, 1)\<rparr>]
   \<and> instanceMatrix (Ornaments_useFrame
         [\<lparr>treePosition = (1, 2, 3), scatterPosition = (4, 5, 6), rotation = (0, 0, 0),
           scale = 1, speed = 1/2, phase = 0\<rparr>] 0 0
         \<lparr>tempObject = \<lparr>obj_position = (0, 0, 0), obj_rotation = (0, 0, 0), obj_scale = (0, 0, 0)\<rparr>,
          instanceMatrix = Some [\<lparr>obj_position = (0, 0, 0), obj_rotation = (0, 0, 0), obj_scale = (0, 0, 0)\<rparr>]\<rparr>)
       = Some [\<lparr>obj_position = (4, 5, 6), obj_rotation = (0, 0, 0), obj_scale = (1, 1, 1)\<rparr>]"
  using ornament_position_at_ends [of
      "\<lparr>tempObject = \<lparr>obj_position = (0, 0, 0), obj_rotation = (0, 0, 0), obj_scale = (0, 0, 0)\<rparr>,
        instanceMatrix = Some [\<lparr>obj_position = (0, 0, 0), obj_rotation = (0, 0, 0), obj_scale = (0, 0, 0)\<rparr>]\<rparr>"
      "[\<lparr>obj_position = (0, 0, 0), obj_rotation = (0, 0, 0), obj_scale = (0, 0, 0)\<rparr>]"
      0
      "[\<lparr>treePosition = (1, 2, 3), scatterPosition = (4, 5, 6), rotation = (0, 0, 0),
         scale = 1, speed = 1/2, phase = 0\<rparr>]"
      0]
  by (simp add: Ornaments_useFrame_def Ornaments_item_def smoothstep_def lerp_def vx_def vy_def vz_def Let_def)

text \<open>
  Claim C1 as stated fails at progress 0: with phase \<open>pi / 2\<close> at time 0 an instance scattered
  at the origin is placed at height 1/2.
\<close>

theorem ornament_scatter_float_counterexample:
  "scatterPosition \<lparr>treePosition = (1, 2, 3), scatterPosition = (0, 0, 0), rotation = (0, 0, 0),
                    scale = 1, speed = 1/2, phase = pi / 2\<rparr> = (0, 0, 0)
   \<and> instanceMatrix (Ornaments_useFrame
         [\<lparr>treePosition = (1, 2, 3), scatterPosition = (0, 0, 0), rotation = (0, 0, 0),
           scale = 1, speed = 1/2, phase = pi / 2\<rparr>] 0 0
         \<lparr>tempObject = \<lparr>obj_position = (0, 0, 0), obj_rotation = (0, 0, 0), obj_scale = (0, 0, 0)\<rparr>,
          instanceMatrix = Some [\<lparr>obj_position = (0, 0, 0), obj_rotation = (0, 0, 0), obj_scale = (0, 0, 0)\<rparr>]\<rparr>)
       = Some [\<lparr>obj_position = (0, 1/2, 0), obj_rotation = (0, 0, 0), obj_scale = (1, 1, 1)\<rparr>]"
  by (simp add: Ornaments_useFrame_def Ornaments_item_def smoothstep_def lerp_def vx_def vy_def vz_def Let_def)

section \<open>Properties of the Ribbon Strip Builder\<close>

declare Ribbon_layout_loop.simps [simp del]
declare Ribbon_loop.simps [simp del]

text \<open>The definitions that evaluate a frame on a concrete ribbon.\<close>

lemmas ribbon_eval = Ribbon_useLayoutEffect_def Ribbon_layout_loop.simps Ribbon_useFrame_def
  Ribbon_loop.simps Ribbon_vertices_def Ribbon_tangent_def Ribbon_center_def path_at_def
  bind_result_def normalize_def divideScalar_def multiplyScalar_def crossVectors_def
  applyAxisAngle_def vlength_def setXYZ_def smoothstep_def lerp_def Let_def vx_def vy_def vz_def

lemma vlength_zero: "vlength (0, 0, 0) = 0"
  by (simp add: vlength_def vx_def vy_def vz_def)

lemma normalize_Inr:
  "normalize v = Inr (multiplyScalar v (1 / (if vlength v = 0 then 1 else vlength v)))"
  by (simp add: normalize_def divideScalar_def)

lemma normalize_zero: "normalize (0, 0, 0) = Inr (0, 0, 0)"
  by (simp add: normalize_Inr vlength_zero multiplyScalar_def vx_def vy_def vz_def)

lemma cross_vertical: "crossVectors (0, a, 0) (0, 1, 0) = (0, 0, 0)"
  by (simp add: crossVectors_def vx_def vy_def vz_def)

lemma applyAxisAngle_zero: "applyAxisAngle (0, 0, 0) axis angle = (0, 0, 0)"
  by (simp add: applyAxisAngle_def Let_def vx_def vy_def vz_def)

lemma multiplyScalar_zero: "multiplyScalar (0, 0, 0) s = (0, 0, 0)"
  by (simp add: multiplyScalar_def vx_def vy_def vz_def)

lemma Ribbon_center_Inr:
  assumes "i < length (scatterPath paths)" "i < length (treePath paths)"
  shows "\<exists>c. Ribbon_center props paths t time i = Inr c"
  using assms by (simp add: Ribbon_center_def path_at_def bind_result_def Let_def)

lemma Ribbon_center_value:
  assumes "i < length (scatterPath paths)" "i < length (treePath paths)"
  shows "Ribbon_center props paths t time i =
     Inr (lerp (vx (scatterPath paths ! i)
                  + sin (time * 0.5 + real i * 0.1 + phaseOffset props) * (1 - t) * 1.5)
               (vx (treePath paths ! i)) t,
          lerp (vy (scatterPath paths ! i) + cos (time * 0.3 + real i * 0.1) * (1 - t) * 1.5)
               (vy (treePath paths ! i)) t,
          lerp (vz (scatterPath paths ! i) + sin (time * 0.4 + real i * 0.05) * (1 - t) * 1.5)
               (vz (treePath paths ! i)) t)"
  using assms by (simp add: Ribbon_center_def path_at_def bind_result_def Let_def)

lemma Ribbon_tangent_Inr:
  assumes "segments props < length (scatterPath paths)" "segments props < length (treePath paths)"
    "i \<le> segments props"
  shows "\<exists>tg. Ribbon_tangent props paths t time i = Inr tg"
proof -
  have i: "i < length (scatterPath paths)" "i < length (treePath paths)" using assms by simp_all
  have n: "min (i + 1) (segments props) < length (scatterPath paths)"
          "min (i + 1) (segments props) < length (treePath paths)" using assms by simp_all
  obtain c where c: "Ribbon_center props paths t time i = Inr c"
    using Ribbon_center_Inr [OF i] by blast
  obtain n where n: "Ribbon_center props paths t time (min (i + 1) (segments props)) = Inr n"
    using Ribbon_center_Inr [OF n] by blast
  show ?thesis
    unfolding Ribbon_tangent_def c n by (simp add: bind_result_def normalize_Inr del: split_paired_Ex)
qed

lemma Ribbon_tangent_last:
  assumes "segments props < length (scatterPath paths)" "segments props < length (treePath paths)"
  shows "Ribbon_tangent props paths t time (segments props) = Inr (0, 1, 0)"
proof -
  obtain c where c: "Ribbon_center props paths t time (segments props) = Inr c"
    using Ribbon_center_Inr [OF assms] by blast
  show ?thesis
    unfolding Ribbon_tangent_def by (simp add: c bind_result_def)
qed

lemma Ribbon_vertices_Inr:
  assumes "segments props < length (scatterPath paths)" "segments props < length (treePath paths)"
    "i \<le> segments props"
  shows "\<exists>lr. Ribbon_vertices props paths t time i = Inr lr"
proof -
  have i: "i < length (scatterPath paths)" "i < length (treePath paths)" using assms by simp_all
  obtain c where c: "Ribbon_center props paths t time i = Inr c"
    using Ribbon_center_Inr [OF i] by blast
  obtain tg where tg: "Ribbon_tangent props paths t time i = Inr tg"
    using Ribbon_tangent_Inr [OF assms] by blast
  show ?thesis
    unfolding Ribbon_vertices_def c tg
    by (simp add: bind_result_def normalize_Inr Let_def del: split_paired_Ex)
qed

lemma vertices_of_vertical_tangent:
  assumes "Ribbon_center props paths t time i = Inr c"
    "Ribbon_tangent props paths t time i = Inr (0, a, 0)"
  shows "Ribbon_vertices props paths t time i = Inr (c, c)"
  unfolding Ribbon_vertices_def assms
  by (simp add: bind_result_def cross_vertical normalize_zero applyAxisAngle_zero
      multiplyScalar_zero Let_def vx_def vy_def vz_def)

lemma Ribbon_vertices_last:
  assumes "segments props < length (scatterPath paths)" "segments props < length (treePath paths)"
    "Ribbon_center props paths t time (segments props) = Inr c"
  shows "Ribbon_vertices props paths t time (segments props) = Inr (c, c)"
  by (rule vertices_of_vertical_tangent [OF assms(3) Ribbon_tangent_last [OF assms(1,2)]])

lemma tangent_of_vertical_step:
  assumes "i < segments props" "Ribbon_center props paths t time i = Inr c"
    "Ribbon_center props paths t time (i + 1) = Inr n" "vx n = vx c" "vz n = vz c"
  shows "\<exists>a. Ribbon_tangent props paths t time i = Inr (0, a, 0)"
proof -
  have m: "min (i + 1) (segments props) = i + 1" using assms(1) by simp
  show ?thesis
    unfolding Ribbon_tangent_def m assms(2,3) using assms(1,4,5)
    by (simp add: bind_result_def normalize_Inr multiplyScalar_def vx_def vy_def vz_def)
qed

lemma tangent_of_coincident_step:
  assumes "i < segments props" "Ribbon_center props paths t time i = Inr c"
    "Ribbon_center props paths t time (i + 1) = Inr c"
  shows "Ribbon_tangent props paths t time i = Inr (0, 0, 0)"
proof -
  have m: "min (i + 1) (segments props) = i + 1" using assms(1) by simp
  show ?thesis
    unfolding Ribbon_tangent_def m assms(2,3) using assms(1)
    by (simp add: bind_result_def normalize_zero)
qed

lemma loop_done: "segments props < i \<Longrightarrow> Ribbon_loop props paths t time i b = Inr b"
  by (subst Ribbon_loop.simps) simp

lemma loop_step:
  "i \<le> segments props \<Longrightarrow> Ribbon_vertices props paths t time i = Inr (l, r) \<Longrightarrow>
   Ribbon_loop props paths t time i b = Ribbon_loop props paths t time (Suc i) (b[i * 2 := l, i * 2 + 1 := r])"
  by (subst Ribbon_loop.simps) (simp add: setXYZ_def)

lemma loop_error:
  "i \<le> segments props \<Longrightarrow> Ribbon_vertices props paths t time i = Inl e \<Longrightarrow>
   Ribbon_loop props paths t time i b = Inl e"
  by (subst Ribbon_loop.simps) simp

lemma Ribbon_vertex_even:
  "Ribbon_vertices props paths t time i = Inr (l, r) \<Longrightarrow> Ribbon_vertex props paths t time (i * 2) = l"
  by (simp add: Ribbon_vertex_def)

lemma Ribbon_vertex_odd:
  "Ribbon_vertices props paths t time i = Inr (l, r) \<Longrightarrow> Ribbon_vertex props paths t time (i * 2 + 1) = r"
  by (simp add: Ribbon_vertex_def)

lemma loop_char:
  "Ribbon_loop props paths t time i b = Inr b' \<Longrightarrow>
     length b' = length b \<and>
     (\<forall>k<length b. b' ! k = (if i * 2 \<le> k \<and> k < (segments props + 1) * 2
                              then Ribbon_vertex props paths t time k else b ! k)) \<and>
     (\<forall>j. i \<le> j \<and> j \<le> segments props \<longrightarrow> (\<exists>lr. Ribbon_vertices props paths t time j = Inr lr))"
proof (induction "segments props + 1 - i" arbitrary: i b)
  case 0
  then have gt: "segments props < i" by simp
  then have "b' = b" using "0.prems" by (simp add: loop_done)
  then show ?case using gt by auto
next
  case (Suc d)
  then have le: "i \<le> segments props" by simp
  obtain l r where v: "Ribbon_vertices props paths t time i = Inr (l, r)"
  proof (cases "Ribbon_vertices props paths t time i")
    case (Inl e)
    then show ?thesis using Suc.prems le by (simp add: loop_error)
  next
    case (Inr lr)
    then show ?thesis using that by (cases lr) simp
  qed
  let ?b2 = "b[i * 2 := l, i * 2 + 1 := r]"
  have next_run: "Ribbon_loop props paths t time (Suc i) ?b2 = Inr b'"
    using Suc.prems loop_step [OF le v] by simp
  have d: "d = segments props + 1 - Suc i" using Suc.hyps(2) by simp
  have IH: "length b' = length ?b2"
    "\<forall>k<length ?b2. b' ! k = (if Suc i * 2 \<le> k \<and> k < (segments props + 1) * 2
                              then Ribbon_vertex props paths t time k else ?b2 ! k)"
    "\<forall>j. Suc i \<le> j \<and> j \<le> segments props \<longrightarrow> (\<exists>lr. Ribbon_vertices props paths t time j = Inr lr)"
    using Suc.hyps(1) [OF d next_run] by simp_all
  have len: "length b' = length b" using IH(1) by simp
  have nth: "b' ! k = (if i * 2 \<le> k \<and> k < (segments props + 1) * 2
                        then Ribbon_vertex props paths t time k else b ! k)" if k: "k < length b" for k
  proof -
    have k2: "k < length ?b2" using k by simp
    have step: "b' ! k = (if Suc i * 2 \<le> k \<and> k < (segments props + 1) * 2
                              then Ribbon_vertex props paths t time k else ?b2 ! k)"
      using IH(2) k2 by blast
    have "k = i * 2 \<or> k = i * 2 + 1 \<or> k < i * 2 \<or> Suc i * 2 \<le> k" by arith
    then consider (even) "k = i * 2" | (odd) "k = i * 2 + 1" | (below) "k < i * 2" | (above) "Suc i * 2 \<le> k"
      by blast
    then show ?thesis
    proof cases
      case even
      then have "b' ! k = l" using step k by simp
      then show ?thesis using even le Ribbon_vertex_even [OF v] by simp
    next
      case odd
      then have "b' ! k = r" using step k by simp
      then show ?thesis using odd le Ribbon_vertex_odd [OF v] by simp
    next
      case below
      then show ?thesis using step by simp
    next
      case above
      then show ?thesis using step by simp
    qed
  qed
  have all: "\<exists>lr. Ribbon_vertices props paths t time j = Inr lr" if "i \<le> j \<and> j \<le> segments props" for j
  proof (cases "j = i")
    case True
    then show ?thesis using v by blast
  next
    case False
    then show ?thesis using that IH(3) by (simp add: Suc_le_eq)
  qed
  show ?case using len nth all by blast
qed

lemma loop_total:
  "(\<forall>j. i \<le> j \<and> j \<le> segments props \<longrightarrow> (\<exists>lr. Ribbon_vertices props paths t time j = Inr lr)) \<Longrightarrow>
   \<exists>b'. Ribbon_loop props paths t time i b = Inr b'"
proof (induction "segments props + 1 - i" arbitrary: i b)
  case 0
  then show ?case by (simp add: loop_done)
next
  case (Suc d)
  then have le: "i \<le> segments props" by simp
  obtain l r where v: "Ribbon_vertices props paths t time i = Inr (l, r)"
    using Suc.prems le by (metis order_refl surj_pair)
  have d: "d = segments props + 1 - Suc i" using Suc.hyps(2) by simp
  have rest: "\<forall>j. Suc i \<le> j \<and> j \<le> segments props \<longrightarrow> (\<exists>lr. Ribbon_vertices props paths t time j = Inr lr)"
    using Suc.prems by (simp add: Suc_le_eq)
  show ?case
    using Suc.hyps(1) [OF d rest] loop_step [OF le v] by simp
qed

lemma loop_error_indep:
  "Ribbon_loop props paths t time i b1 = Inl e \<Longrightarrow> Ribbon_loop props paths t time i b2 = Inl e"
proof (induction "segments props + 1 - i" arbitrary: i b1 b2)
  case 0
  then show ?case by (simp add: loop_done)
next
  case (Suc d)
  then have le: "i \<le> segments props" by simp
  have d: "d = segments props + 1 - Suc i" using Suc.hyps(2) by simp
  show ?case
  proof (cases "Ribbon_vertices props paths t time i")
    case (Inl e0)
    then show ?thesis using Suc.prems le by (simp add: loop_error)
  next
    case (Inr lr)
    obtain l r where lr: "lr = (l, r)" by (cases lr)
    have v: "Ribbon_vertices props paths t time i = Inr (l, r)" using Inr lr by simp
    have "Ribbon_loop props paths t time (Suc i) (b1[i * 2 := l, i * 2 + 1 := r]) = Inl e"
      using Suc.prems loop_step [OF le v] by simp
    then have "Ribbon_loop props paths t time (Suc i) (b2[i * 2 := l, i * 2 + 1 := r]) = Inl e"
      by (rule Suc.hyps(1) [OF d])
    then show ?thesis using loop_step [OF le v] by simp
  qed
qed

lemma loop_idempotent:
  assumes "Ribbon_loop props paths t time 0 b = Inr b'"
  shows "Ribbon_loop props paths t time 0 b' = Inr b'"
proof -
  have c1: "length b' = length b"
    "\<forall>k<length b. b' ! k = (if 0 * 2 \<le> k \<and> k < (segments props + 1) * 2
                              then Ribbon_vertex props paths t time k else b ! k)"
    "\<forall>j. 0 \<le> j \<and> j \<le> segments props \<longrightarrow> (\<exists>lr. Ribbon_vertices props paths t time j = Inr lr)"
    using loop_char [OF assms] by simp_all
  obtain b'' where b'': "Ribbon_loop props paths t time 0 b' = Inr b''"
    using loop_total [OF c1(3), of b'] by blast
  have c2: "length b'' = length b'"
    "\<forall>k<length b'. b'' ! k = (if 0 * 2 \<le> k \<and> k < (segments props + 1) * 2
                              then Ribbon_vertex props paths t time k else b' ! k)"
    using loop_char [OF b''] by simp_all
  have "b'' = b'"
  proof (rule nth_equalityI)
    show "length b'' = length b'" by (rule c2(1))
    fix k assume "k < length b''"
    then have k: "k < length b'" "k < length b" using c2(1) c1(1) by simp_all
    show "b'' ! k = b' ! k" using c1(2) c2(2) k by simp
  qed
  then show ?thesis using b'' by simp
qed

lemma loop_independent:
  assumes "length b1 = length b2" "length b1 \<le> (segments props + 1) * 2"
  shows "Ribbon_loop props paths t time 0 b1 = Ribbon_loop props paths t time 0 b2"
proof (cases "Ribbon_loop props paths t time 0 b1")
  case (Inl e)
  have "Ribbon_loop props paths t time 0 b2 = Inl e"
    by (rule loop_error_indep [OF Inl])
  then show ?thesis using Inl by (simp only:)
next
  case (Inr b1')
  have c1: "length b1' = length b1"
    "\<forall>k<length b1. b1' ! k = (if 0 * 2 \<le> k \<and> k < (segments props + 1) * 2
                              then Ribbon_vertex props paths t time k else b1 ! k)"
    "\<forall>j. 0 \<le> j \<and> j \<le> segments props \<longrightarrow> (\<exists>lr. Ribbon_vertices props paths t time j = Inr lr)"
    using loop_char [OF Inr] by simp_all
  obtain b2' where b2': "Ribbon_loop props paths t time 0 b2 = Inr b2'"
    using loop_total [OF c1(3), of b2] by blast
  have c2: "length b2' = length b2"
    "\<forall>k<length b2. b2' ! k = (if 0 * 2 \<le> k \<and> k < (segments props + 1) * 2
                              then Ribbon_vertex props paths t time k else b2 ! k)"
    using loop_char [OF b2'] by simp_all
  have "b1' = b2'"
  proof (rule nth_equalityI)
    show "length b1' = length b2'" using c1(1) c2(1) assms(1) by simp
    fix k assume "k < length b1'"
    then have k: "k < length b1" "k < length b2" "k < (segments props + 1) * 2"
      using c1(1) assms by simp_all
    show "b1' ! k = b2' ! k" using c1(2) c2(2) k by simp
  qed
  then show ?thesis using Inr b2' by simp
qed

lemma layout_loop_indices:
  "length (snd (Ribbon_layout_loop segs i (uvs, indices))) = length indices + 6 * (segs - i)"
proof (induction "segs + 1 - i" arbitrary: i uvs indices)
  case 0
  then have "segs < i" by simp
  then show ?case by (subst Ribbon_layout_loop.simps) simp
next
  case (Suc d)
  then have le: "i \<le> segs" by simp
  have d: "d = segs + 1 - (i + 1)" using Suc.hyps(2) by simp
  show ?case
  proof (cases "i < segs")
    case True
    then have "6 * (segs - i) = 6 + 6 * (segs - (i + 1))" by simp
    then show ?thesis
      using True le Suc.hyps(1) [OF d]
      by (subst Ribbon_layout_loop.simps) (simp add: Let_def)
  next
    case False
    then have "segs - i = 0" "segs - (i + 1) = 0" by simp_all
    then show ?thesis
      using False le Suc.hyps(1) [OF d]
      by (subst Ribbon_layout_loop.simps) (simp add: Let_def)
  qed
qed

lemma layout_effect:
  assumes "1 \<le> segs"
  shows "\<exists>uvs indices.
           Ribbon_useLayoutEffect segs (Some geometry) =
             Inr (Some (geometry\<lparr>attr_position := Some (replicate ((segs + 1) * 2) (0, 0, 0)),
                                 attr_uv := Some uvs, index := Some indices\<rparr>))
           \<and> length indices = 6 * segs"
proof -
  obtain uvs indices where l:
    "Ribbon_layout_loop segs 0 (replicate ((segs + 1) * 2 * 2) 0, []) = (uvs, indices)"
    by (cases "Ribbon_layout_loop segs 0 (replicate ((segs + 1) * 2 * 2) 0, [])")
  have len: "length indices = 6 * segs"
    using layout_loop_indices [of segs 0 "replicate ((segs + 1) * 2 * 2) 0" "[]"] l by simp
  have "Ribbon_useLayoutEffect segs (Some geometry) =
             Inr (Some (geometry\<lparr>attr_position := Some (replicate ((segs + 1) * 2) (0, 0, 0)),
                                 attr_uv := Some uvs, index := Some indices\<rparr>))"
    using assms l by (simp add: Ribbon_useLayoutEffect_def Let_def)
  then show ?thesis using len by blast
qed

lemma frame_Some:
  assumes "attr_position geo = Some b"
  shows "Ribbon_useFrame props paths progress time (Some geo) =
           (case Ribbon_loop props paths (smoothstep progress) time 0 b of
              Inl e \<Rightarrow> Inl e
            | Inr b' \<Rightarrow> Inr (Some (geo\<lparr>attr_position := Some b'\<rparr>)))"
  using assms by (simp add: Ribbon_useFrame_def bind_result_def Let_def)

lemma frame_ok:
  assumes "segments props < length (scatterPath paths)" "segments props < length (treePath paths)"
    "attr_position geo = Some b"
  shows "\<exists>b'. Ribbon_useFrame props paths progress time (Some geo) = Inr (Some (geo\<lparr>attr_position := Some b'\<rparr>))
            \<and> length b' = length b
            \<and> (\<forall>k<length b. b' ! k = (if k < (segments props + 1) * 2
                   then Ribbon_vertex props paths (smoothstep progress) time k else b ! k))"
proof -
  have "\<forall>j. 0 \<le> j \<and> j \<le> segments props \<longrightarrow>
          (\<exists>lr. Ribbon_vertices props paths (smoothstep progress) time j = Inr lr)"
    using Ribbon_vertices_Inr [OF assms(1,2)] by blast
  then have "\<exists>b'. Ribbon_loop props paths (smoothstep progress) time 0 b = Inr b'"
    by (rule loop_total)
  then obtain b' where b': "Ribbon_loop props paths (smoothstep progress) time 0 b = Inr b'"
    by blast
  have c: "length b' = length b"
    "\<forall>k<length b. b' ! k = (if k < (segments props + 1) * 2
                   then Ribbon_vertex props paths (smoothstep progress) time k else b ! k)"
    using loop_char [OF b'] by simp_all
  have "Ribbon_useFrame props paths progress time (Some geo) = Inr (Some (geo\<lparr>attr_position := Some b'\<rparr>))"
    using frame_Some [OF assms(3), of props paths progress time] b' by simp
  then show ?thesis using c by blast
qed

lemma frames_keep_counts:
  assumes "segments props < length (scatterPath paths)" "segments props < length (treePath paths)"
    "attr_position geo = Some b"
  shows "\<exists>geo' b'. Ribbon_frames props paths ticks (Some geo) = Inr (Some geo')
            \<and> attr_position geo' = Some b' \<and> length b' = length b \<and> index geo' = index geo"
  using assms(3)
proof (induction ticks arbitrary: geo b)
  case Nil
  then show ?case by simp
next
  case (Cons tick ticks)
  obtain progress time where tick: "tick = (progress, time)" by (cases tick)
  obtain b1 where b1:
    "Ribbon_useFrame props paths progress time (Some geo) = Inr (Some (geo\<lparr>attr_position := Some b1\<rparr>))"
    "length b1 = length b"
    using frame_ok [OF assms(1,2) Cons.prems] by blast
  let ?g1 = "geo\<lparr>attr_position := Some b1\<rparr>"
  have "attr_position ?g1 = Some b1" by simp
  from Cons.IH [OF this] obtain geo' b' where r:
    "Ribbon_frames props paths ticks (Some ?g1) = Inr (Some geo')"
    "attr_position geo' = Some b'" "length b' = length b1" "index geo' = index ?g1"
    by blast
  have "Ribbon_frames props paths (tick # ticks) (Some geo) = Inr (Some geo')"
    using b1(1) r(1) tick by (simp add: bind_result_def)
  then show ?case using r b1(2) by simp
qed

text \<open>
  Claim C6: for a ribbon with segment count \<open>N \<ge> 1\<close> (and paths of \<open>N + 1\<close> samples), the layout
  effect gives the mounted mesh a position attribute of exactly \<open>2 (N + 1)\<close> vertices and an
  index of exactly \<open>6 N\<close> entries; after any sequence of frames, whatever their progress and
  time, the position attribute still has \<open>2 (N + 1)\<close> vertices and the index is the one the
  layout effect built.
\<close>

theorem ribbon_buffer_counts:
  assumes "1 \<le> segments props" "length (treePath paths) = segments props + 1"
    "length (scatterPath paths) = segments props + 1"
  shows "\<exists>g0 pos0 idx.
           Ribbon_useLayoutEffect (segments props) (Some geometry) = Inr (Some g0)
         \<and> attr_position g0 = Some pos0 \<and> length pos0 = 2 * (segments props + 1)
         \<and> index g0 = Some idx \<and> length idx = 6 * segments props
         \<and> (\<forall>ticks. \<exists>g pos. Ribbon_frames props paths ticks (Some g0) = Inr (Some g)
                \<and> attr_position g = Some pos \<and> length pos = 2 * (segments props + 1)
                \<and> index g = Some idx)"
proof -
  let ?pos0 = "replicate ((segments props + 1) * 2) (0, 0, 0) :: vec3 list"
  obtain uvs idx where l:
    "Ribbon_useLayoutEffect (segments props) (Some geometry) =
       Inr (Some (geometry\<lparr>attr_position := Some ?pos0, attr_uv := Some uvs, index := Some idx\<rparr>))"
    "length idx = 6 * segments props"
    using layout_effect [OF assms(1)] by blast
  let ?g0 = "geometry\<lparr>attr_position := Some ?pos0, attr_uv := Some uvs, index := Some idx\<rparr>"
  have p0: "attr_position ?g0 = Some ?pos0" by simp
  have sp: "segments props < length (scatterPath paths)" and tp: "segments props < length (treePath paths)"
    using assms(2,3) by simp_all
  have frames: "\<exists>g pos. Ribbon_frames props paths ticks (Some ?g0) = Inr (Some g)
                \<and> attr_position g = Some pos \<and> length pos = 2 * (segments props + 1)
                \<and> index g = Some idx" for ticks
  proof -
    obtain g pos where "Ribbon_frames props paths ticks (Some ?g0) = Inr (Some g)"
      "attr_position g = Some pos" "length pos = length ?pos0" "index g = index ?g0"
      using frames_keep_counts [OF sp tp p0] by blast
    then show ?thesis by simp
  qed
  have "length ?pos0 = 2 * (segments props + 1)" "index ?g0 = Some idx" by simp_all
  with l p0 frames show ?thesis by blast
qed

text \<open>
  The theorem of C6 for a ribbon of one segment: the buffers of the layout effect, and the
  geometry after two frames.
\<close>

theorem ribbon_buffer_counts_witness:
  "1 \<le> segments \<lparr>width = 1, segments = 1, phaseOffset = 0\<rparr>
   \<and> length (treePath \<lparr>treePath = [(0, 0, 0), (1, 0, 0)], scatterPath = [(0, 0, 0), (0, 0, 0)]\<rparr>) = 1 + 1
   \<and> length (scatterPath \<lparr>treePath = [(0, 0, 0), (1, 0, 0)], scatterPath = [(0, 0, 0), (0, 0, 0)]\<rparr>) = 1 + 1
   \<and> Ribbon_useLayoutEffect 1 (Some \<lparr>attr_position = None, attr_uv = None, index = None\<rparr>)
       = Inr (Some \<lparr>attr_position = Some [(0, 0, 0), (0, 0, 0), (0, 0, 0), (0, 0, 0)],
                    attr_uv = Some [0, 0, 1, 0, 0, 1, 1, 1],
                    index = Some [0, 1, 2, 1, 3, 2]\<rparr>)
   \<and> Ribbon_frames \<lparr>width = 1, segments = 1, phaseOffset = 0\<rparr>
         \<lparr>treePath = [(0, 0, 0), (1, 0, 0)], scatterPath = [(0, 0, 0), (0, 0, 0)]\<rparr> [(1, 0), (1, 0)]
         (Some \<lparr>attr_position = Some [(0, 0, 0), (0, 0, 0), (0, 0, 0), (0, 0, 0)],
                attr_uv = Some [0, 0, 1, 0, 0, 1, 1, 1],
                index = Some [0, 1, 2, 1, 3, 2]\<rparr>)
       = Inr (Some \<lparr>attr_position = Some [(0, 0, 1/2), (0, 0, -1/2), (1, 0, 0), (1, 0, 0)],
                    attr_uv = Some [0, 0, 1, 0, 0, 1, 1, 1],
                    index = Some [0, 1, 2, 1, 3, 2]\<rparr>)"
  using ribbon_buffer_counts [of "\<lparr>width = 1, segments = 1, phaseOffset = 0\<rparr>"
      "\<lparr>treePath = [(0, 0, 0), (1, 0, 0)], scatterPath = [(0, 0, 0), (0, 0, 0)]\<rparr>"
      "\<lparr>attr_position = None, attr_uv = None, index = None\<rparr>"]
  by (simp add: ribbon_eval eval_nat_numeral)

text \<open>
  Claim C10: for every ribbon (paths of \<open>N + 1\<close> samples, a laid-out position attribute of
  \<open>2 (N + 1)\<close> vertices), at every progress and time, the tangent at the final path index \<open>N\<close>
  is the up-vector (0,1,0), its cross product with the up reference (0,1,0) is zero, and the two
  vertices the frame writes at buffer indices \<open>2 N\<close> and \<open>2 N + 1\<close> both equal the blended
  centre at \<open>N\<close>: the strip has zero width at its far end. The blended centre is the
  interpolation, by the eased progress, of the scatter sample displaced by its noise and the tree
  sample.
\<close>

theorem ribbon_end_zero_width:
  assumes "length (treePath paths) = segments props + 1"
    "length (scatterPath paths) = segments props + 1"
    "attr_position geo = Some pos" "length pos = 2 * (segments props + 1)"
  shows "\<exists>c geo' pos'.
           Ribbon_center props paths (smoothstep progress) time (segments props) = Inr c
         \<and> c = (lerp (vx (scatterPath paths ! segments props)
                         + sin (time * 0.5 + real (segments props) * 0.1 + phaseOffset props)
                             * (1 - smoothstep progress) * 1.5)
                      (vx (treePath paths ! segments props)) (smoothstep progress),
                 lerp (vy (scatterPath paths ! segments props)
                         + cos (time * 0.3 + real (segments props) * 0.1)
                             * (1 - smoothstep progress) * 1.5)
                      (vy (treePath paths ! segments props)) (smoothstep progress),
                 lerp (vz (scatterPath paths ! segments props)
                         + sin (time * 0.4 + real (segments props) * 0.05)
                             * (1 - smoothstep progress) * 1.5)
                      (vz (treePath paths ! segments props)) (smoothstep progress))
         \<and> Ribbon_tangent props paths (smoothstep progress) time (segments props) = Inr (0, 1, 0)
         \<and> crossVectors (0, 1, 0) (0, 1, 0) = (0, 0, 0)
         \<and> Ribbon_vertices props paths (smoothstep progress) time (segments props) = Inr (c, c)
         \<and> Ribbon_useFrame props paths progress time (Some geo) = Inr (Some geo')
         \<and> attr_position geo' = Some pos'
         \<and> pos' ! (segments props * 2) = c \<and> pos' ! (segments props * 2 + 1) = c"
proof -
  let ?t = "smoothstep progress"
  let ?n = "segments props"
  have sp: "?n < length (scatterPath paths)" and tp: "?n < length (treePath paths)"
    using assms(1,2) by simp_all
  define c where "c = (lerp (vx (scatterPath paths ! ?n)
                         + sin (time * 0.5 + real ?n * 0.1 + phaseOffset props) * (1 - ?t) * 1.5)
                      (vx (treePath paths ! ?n)) ?t,
                 lerp (vy (scatterPath paths ! ?n) + cos (time * 0.3 + real ?n * 0.1) * (1 - ?t) * 1.5)
                      (vy (treePath paths ! ?n)) ?t,
                 lerp (vz (scatterPath paths ! ?n) + sin (time * 0.4 + real ?n * 0.05) * (1 - ?t) * 1.5)
                      (vz (treePath paths ! ?n)) ?t)"
  have c: "Ribbon_center props paths ?t time ?n = Inr c"
    unfolding c_def by (rule Ribbon_center_value [OF sp tp])
  have tg: "Ribbon_tangent props paths ?t time ?n = Inr (0, 1, 0)"
    by (rule Ribbon_tangent_last [OF sp tp])
  have v: "Ribbon_vertices props paths ?t time ?n = Inr (c, c)"
    by (rule Ribbon_vertices_last [OF sp tp c])
  obtain pos' where f:
    "Ribbon_useFrame props paths progress time (Some geo) = Inr (Some (geo\<lparr>attr_position := Some pos'\<rparr>))"
    "\<forall>k<length pos. pos' ! k = (if k < (?n + 1) * 2 then Ribbon_vertex props paths ?t time k else pos ! k)"
    using frame_ok [OF sp tp assms(3)] by blast
  have "pos' ! (?n * 2) = Ribbon_vertex props paths ?t time (?n * 2)"
    using f(2) assms(4) by simp
  then have l: "pos' ! (?n * 2) = c" using Ribbon_vertex_even [OF v] by simp
  have "pos' ! (?n * 2 + 1) = Ribbon_vertex props paths ?t time (?n * 2 + 1)"
    using f(2) assms(4) by simp
  then have r: "pos' ! (?n * 2 + 1) = c" using Ribbon_vertex_odd [OF v] by simp
  have "attr_position (geo\<lparr>attr_position := Some pos'\<rparr>) = Some pos'" by simp
  with c c_def tg v f(1) l r cross_vertical [of 1] show ?thesis by blast
qed

text \<open>
  The theorem of C10 for a ribbon of one segment and width 2: the last two vertices are the
  centre (3,0,0), the first two lie one unit to either side of theirs.
\<close>

theorem ribbon_end_zero_width_witness:
  "length (treePath \<lparr>treePath = [(0, 0, 0), (3, 0, 0)], scatterPath = [(0, 0, 0), (0, 0, 0)]\<rparr>)
     = segments \<lparr>width = 2, segments = 1, phaseOffset = 0\<rparr> + 1
   \<and> length (scatterPath \<lparr>treePath = [(0, 0, 0), (3, 0, 0)], scatterPath = [(0, 0, 0), (0, 0, 0)]\<rparr>)
     = segments \<lparr>width = 2, segments = 1, phaseOffset = 0\<rparr> + 1
   \<and> length [(0, 0, 0), (0, 0, 0), (0, 0, 0), (0, 0, 0 :: real)] = 2 * (1 + 1)
   \<and> Ribbon_center \<lparr>width = 2, segments = 1, phaseOffset = 0\<rparr>
         \<lparr>treePath = [(0, 0, 0), (3, 0, 0)], scatterPath = [(0, 0, 0), (0, 0, 0)]\<rparr> (smoothstep 1) 0 1
       = Inr (3, 0, 0)
   \<and> Ribbon_useFrame \<lparr>width = 2, segments = 1, phaseOffset = 0\<rparr>
         \<lparr>treePath = [(0, 0, 0), (3, 0, 0)], scatterPath = [(0, 0, 0), (0, 0, 0)]\<rparr> 1 0
         (Some \<lparr>attr_position = Some [(0, 0, 0), (0, 0, 0), (0, 0, 0), (0, 0, 0)],
                attr_uv = None, index = None\<rparr>)
       = Inr (Some \<lparr>attr_position = Some [(0, 0, 1), (0, 0, -1), (3, 0, 0), (3, 0, 0)],
                    attr_uv = None, index = None\<rparr>)"
  using ribbon_end_zero_width [of
      "\<lparr>treePath = [(0, 0, 0), (3, 0, 0)], scatterPath = [(0, 0, 0), (0, 0, 0)]\<rparr>"
      "\<lparr>width = 2, segments = 1, phaseOffset = 0\<rparr>"
      "\<lparr>attr_position = Some [(0, 0, 0), (0, 0, 0), (0, 0, 0), (0, 0, 0)], attr_uv = None, index = None\<rparr>"
      "[(0, 0, 0), (0, 0, 0), (0, 0, 0), (0, 0, 0)]" 1 0]
  by (simp add: ribbon_eval)

lemma smoothstep_unit:
  assumes "0 \<le> p" "p \<le> 1"
  shows "0 \<le> smoothstep p" "smoothstep p \<le> 1"
proof -
  have a: "0 \<le> p * p" by simp
  have b: "0 \<le> 3 - 2 * p" using assms by simp
  show "0 \<le> smoothstep p" unfolding smoothstep_def using a b by (rule mult_nonneg_nonneg)
  have c: "0 \<le> (1 - p) * (1 - p)" by simp
  have d: "0 \<le> 1 + 2 * p" using assms by simp
  have "0 \<le> (1 - p) * (1 - p) * (1 + 2 * p)" using c d by (rule mult_nonneg_nonneg)
  moreover have "(1 - p) * (1 - p) * (1 + 2 * p) = 1 - smoothstep p"
    by (simp add: smoothstep_def algebra_simps)
  ultimately show "smoothstep p \<le> 1" by simp
qed

lemma lerp_noise_bound:
  fixes s n tr t B :: real
  assumes "0 \<le> t" "t \<le> 1" "\<bar>s\<bar> \<le> B" "\<bar>tr\<bar> \<le> B" "\<bar>n\<bar> \<le> 3/2"
  shows "\<bar>lerp (s + n) tr t\<bar> \<le> B + 3/2"
proof -
  have t1: "0 \<le> 1 - t" using assms by simp
  have a: "\<bar>(1 - t) * (s + n)\<bar> \<le> (1 - t) * (B + 3/2)"
  proof -
    have "\<bar>s + n\<bar> \<le> B + 3/2" using assms(3,5) by linarith
    then have "(1 - t) * \<bar>s + n\<bar> \<le> (1 - t) * (B + 3/2)" using t1 by (rule mult_left_mono)
    then show ?thesis using t1 by (simp add: abs_mult)
  qed
  have b: "\<bar>t * tr\<bar> \<le> t * (B + 3/2)"
  proof -
    have "\<bar>tr\<bar> \<le> B + 3/2" using assms(4) by linarith
    then have "t * \<bar>tr\<bar> \<le> t * (B + 3/2)" using assms(1) by (rule mult_left_mono)
    then show ?thesis using assms(1) by (simp add: abs_mult)
  qed
  have "\<bar>lerp (s + n) tr t\<bar> \<le> \<bar>(1 - t) * (s + n)\<bar> + \<bar>t * tr\<bar>"
    unfolding lerp_def by (rule abs_triangle_ineq)
  also have "\<dots> \<le> (1 - t) * (B + 3/2) + t * (B + 3/2)" using a b by linarith
  also have "\<dots> = B + 3/2" by (simp add: algebra_simps add_divide_distrib diff_divide_distrib)
  finally show ?thesis .
qed

lemma noise_bound:
  fixes w t :: real
  assumes "0 \<le> t" "t \<le> 1" "\<bar>w\<bar> \<le> 1"
  shows "\<bar>w * (1.0 - t) * 1.5\<bar> \<le> 3/2"
proof -
  have "\<bar>w\<bar> * (1 - t) \<le> 1 * 1"
    by (rule mult_mono) (use assms in simp_all)
  then have "\<bar>w\<bar> * (1 - t) * (3/2) \<le> 3/2" by simp
  moreover have "\<bar>w * (1.0 - t) * 1.5\<bar> = \<bar>w\<bar> * (1 - t) * (3/2)"
    using assms by (simp add: abs_mult)
  ultimately show ?thesis by simp
qed

lemma Ribbon_center_bound:
  assumes "i < length (scatterPath paths)" "i < length (treePath paths)" "0 \<le> t" "t \<le> 1"
    "\<forall>p \<in> set (treePath paths) \<union> set (scatterPath paths). \<bar>vx p\<bar> \<le> B \<and> \<bar>vy p\<bar> \<le> B \<and> \<bar>vz p\<bar> \<le> B"
  shows "\<exists>c. Ribbon_center props paths t time i = Inr c
            \<and> \<bar>vx c\<bar> \<le> B + 3/2 \<and> \<bar>vy c\<bar> \<le> B + 3/2 \<and> \<bar>vz c\<bar> \<le> B + 3/2"
proof -
  let ?s = "scatterPath paths ! i" and ?tr = "treePath paths ! i"
  have s: "\<bar>vx ?s\<bar> \<le> B" "\<bar>vy ?s\<bar> \<le> B" "\<bar>vz ?s\<bar> \<le> B"
    using assms(1,5) nth_mem [OF assms(1)] by auto
  have tr: "\<bar>vx ?tr\<bar> \<le> B" "\<bar>vy ?tr\<bar> \<le> B" "\<bar>vz ?tr\<bar> \<le> B"
    using assms(2,5) nth_mem [OF assms(2)] by auto
  let ?nx = "sin (time * 0.5 + real i * 0.1 + phaseOffset props) * (1.0 - t) * 1.5"
  let ?ny = "cos (time * 0.3 + real i * 0.1) * (1.0 - t) * 1.5"
  let ?nz = "sin (time * 0.4 + real i * 0.05) * (1.0 - t) * 1.5"
  have n: "\<bar>?nx\<bar> \<le> 3/2" "\<bar>?ny\<bar> \<le> 3/2" "\<bar>?nz\<bar> \<le> 3/2"
    by (rule noise_bound [OF assms(3,4)], simp)+
  have c: "Ribbon_center props paths t time i =
      Inr (lerp (vx ?s + ?nx) (vx ?tr) t, lerp (vy ?s + ?ny) (vy ?tr) t, lerp (vz ?s + ?nz) (vz ?tr) t)"
    using assms(1,2) by (simp add: Ribbon_center_def path_at_def bind_result_def Let_def)
  have "\<bar>lerp (vx ?s + ?nx) (vx ?tr) t\<bar> \<le> B + 3/2"
    by (rule lerp_noise_bound [OF assms(3,4) s(1) tr(1) n(1)])
  moreover have "\<bar>lerp (vy ?s + ?ny) (vy ?tr) t\<bar> \<le> B + 3/2"
    by (rule lerp_noise_bound [OF assms(3,4) s(2) tr(2) n(2)])
  moreover have "\<bar>lerp (vz ?s + ?nz) (vz ?tr) t\<bar> \<le> B + 3/2"
    by (rule lerp_noise_bound [OF assms(3,4) s(3) tr(3) n(3)])
  ultimately show ?thesis unfolding c by (simp add: vx_def vy_def vz_def)
qed

lemma sumsq_zero_iff: "sumsq v = 0 \<longleftrightarrow> v = (0, 0, 0)"
proof
  assume "sumsq v = 0"
  then have "vx v * vx v + (vy v * vy v + vz v * vz v) = 0" by (simp add: sumsq_def)
  then have "vx v = 0 \<and> vy v = 0 \<and> vz v = 0"
    by (metis add_nonneg_eq_0_iff add_nonneg_nonneg mult_eq_0_iff zero_le_square)
  then show "v = (0, 0, 0)" by (cases v) (simp add: vx_def vy_def vz_def)
next
  assume "v = (0, 0, 0)"
  then show "sumsq v = 0" by (simp add: sumsq_def vx_def vy_def vz_def)
qed

lemma vlength_sumsq: "vlength v = sqrt (sumsq v)"
  by (simp add: vlength_def sumsq_def)

lemma sumsq_nonneg: "0 \<le> sumsq v"
  by (simp add: sumsq_def)

lemma normalize_unit_or_zero:
  assumes "normalize v = Inr n"
  shows "sumsq n = 1 \<or> n = (0, 0, 0)"
proof (cases "vlength v = 0")
  case True
  then have "sumsq v = 0" by (simp add: vlength_sumsq)
  then have v: "v = (0, 0, 0)" by (simp add: sumsq_zero_iff)
  have "n = (0, 0, 0)"
    using assms True unfolding v
    by (simp add: normalize_def divideScalar_def multiplyScalar_def vx_def vy_def vz_def)
  then show ?thesis by simp
next
  case False
  let ?l = "vlength v"
  have n: "n = multiplyScalar v (1 / ?l)"
    using assms False by (simp add: normalize_def divideScalar_def)
  have l2: "?l * ?l = sumsq v"
    using sumsq_nonneg [of v] by (simp add: vlength_sumsq)
  have nz: "?l * ?l \<noteq> 0" using False by simp
  have "sumsq n = (vx v * vx v + vy v * vy v + vz v * vz v) / (?l * ?l)"
    unfolding n by (simp add: sumsq_def multiplyScalar_def vx_def vy_def vz_def add_divide_distrib)
  also have "\<dots> = (?l * ?l) / (?l * ?l)" by (simp only: l2 sumsq_def)
  also have "\<dots> = 1" using nz by simp
  finally show ?thesis by simp
qed

lemma rot_identity:
  fixes x y z qx qy qz qw :: real
  assumes "qx * qx + qy * qy + qz * qz + qw * qw = 1"
  shows "(x + qw * (2 * (qy * z - qz * y)) + qy * (2 * (qx * y - qy * x)) - qz * (2 * (qz * x - qx * z)))
           * (x + qw * (2 * (qy * z - qz * y)) + qy * (2 * (qx * y - qy * x)) - qz * (2 * (qz * x - qx * z)))
       + (y + qw * (2 * (qz * x - qx * z)) + qz * (2 * (qy * z - qz * y)) - qx * (2 * (qx * y - qy * x)))
           * (y + qw * (2 * (qz * x - qx * z)) + qz * (2 * (qy * z - qz * y)) - qx * (2 * (qx * y - qy * x)))
       + (z + qw * (2 * (qx * y - qy * x)) + qx * (2 * (qz * x - qx * z)) - qy * (2 * (qy * z - qz * y)))
           * (z + qw * (2 * (qx * y - qy * x)) + qx * (2 * (qz * x - qx * z)) - qy * (2 * (qy * z - qz * y)))
       = x * x + y * y + z * z"
  using assms by algebra

lemma unit_quaternion:
  assumes "sumsq axis = 1"
  shows "(vx axis * sin h) * (vx axis * sin h) + (vy axis * sin h) * (vy axis * sin h)
           + (vz axis * sin h) * (vz axis * sin h) + cos h * cos h = 1"
proof -
  have "(vx axis * sin h) * (vx axis * sin h) + (vy axis * sin h) * (vy axis * sin h)
           + (vz axis * sin h) * (vz axis * sin h) + cos h * cos h
        = sumsq axis * (sin h * sin h) + cos h * cos h"
    by (simp add: sumsq_def algebra_simps)
  also have "\<dots> = 1"
    using sin_cos_squared_add [of h] by (simp add: assms power2_eq_square)
  finally show ?thesis .
qed

lemma applyAxisAngle_sumsq:
  assumes "sumsq axis = 1"
  shows "sumsq (applyAxisAngle v axis angle) = sumsq v"
  unfolding applyAxisAngle_def Let_def sumsq_def vx_def vy_def vz_def fst_conv snd_conv
  by (rule rot_identity) (use unit_quaternion [OF assms, of "angle / 2"] in \<open>simp add: vx_def vy_def vz_def\<close>)

lemma applyAxisAngle_zero_axis: "applyAxisAngle v (0, 0, 0) angle = v"
  by (cases v) (simp add: applyAxisAngle_def Let_def vx_def vy_def vz_def)

lemma sumsq_up: "sumsq (0, 1, 0) = 1"
  by (simp add: sumsq_def vx_def vy_def vz_def)

lemma Ribbon_tangent_unit_or_zero:
  assumes "Ribbon_tangent props paths t time i = Inr tg"
  shows "sumsq tg = 1 \<or> tg = (0, 0, 0)"
proof (cases "Ribbon_center props paths t time i")
  case (Inl e)
  then show ?thesis using assms by (simp add: Ribbon_tangent_def bind_result_def)
next
  case (Inr c)
  note c = this
  show ?thesis
  proof (cases "Ribbon_center props paths t time (min (i + 1) (segments props))")
    case (Inl e)
    then show ?thesis using assms c by (simp add: Ribbon_tangent_def bind_result_def)
  next
    case (Inr n)
    show ?thesis
    proof (cases "i = segments props")
      case True
      then have "tg = (0, 1, 0)"
        using assms c Inr by (simp add: Ribbon_tangent_def bind_result_def)
      then show ?thesis using sumsq_up by simp
    next
      case False
      then have "normalize (vx n - vx c, vy n - vy c, vz n - vz c) = Inr tg"
        using assms c Inr by (simp add: Ribbon_tangent_def bind_result_def)
      then show ?thesis by (rule normalize_unit_or_zero)
    qed
  qed
qed

lemma sumsq_component_le:
  assumes "sumsq v \<le> 1"
  shows "\<bar>vx v\<bar> \<le> 1" "\<bar>vy v\<bar> \<le> 1" "\<bar>vz v\<bar> \<le> 1"
proof -
  have x: "vx v * vx v \<le> 1" and y: "vy v * vy v \<le> 1" and z: "vz v * vz v \<le> 1"
    using assms zero_le_square [of "vx v"] zero_le_square [of "vy v"] zero_le_square [of "vz v"]
    unfolding sumsq_def by linarith+
  show "\<bar>vx v\<bar> \<le> 1" using x by (simp add: abs_le_square_iff [of "vx v" 1, simplified] power2_eq_square)
  show "\<bar>vy v\<bar> \<le> 1" using y by (simp add: abs_le_square_iff [of "vy v" 1, simplified] power2_eq_square)
  show "\<bar>vz v\<bar> \<le> 1" using z by (simp add: abs_le_square_iff [of "vz v" 1, simplified] power2_eq_square)
qed

lemma twisted_normal_sumsq:
  assumes "sumsq tg = 1 \<or> tg = (0, 0, 0)" "sumsq n0 = 1 \<or> n0 = (0, 0, 0)"
  shows "sumsq (if a \<noteq> 0 then applyAxisAngle n0 tg a else n0) \<le> 1"
proof -
  have n0: "sumsq n0 \<le> 1" using assms(2) by (auto simp: sumsq_zero_iff [THEN iffD2])
  have "sumsq (applyAxisAngle n0 tg a) = sumsq n0"
    using assms(1) by (auto simp: applyAxisAngle_sumsq applyAxisAngle_zero_axis)
  then show ?thesis using n0 by simp
qed

lemma side_offset_bound:
  fixes w :: real
  assumes "\<bar>a\<bar> \<le> 1"
  shows "\<bar>a * (w * 0.5)\<bar> \<le> \<bar>w\<bar> / 2"
proof -
  have "\<bar>a\<bar> * (\<bar>w\<bar> / 2) \<le> 1 * (\<bar>w\<bar> / 2)"
    by (rule mult_right_mono) (use assms in simp_all)
  then show ?thesis by (simp add: abs_mult)
qed

lemma Ribbon_vertices_near_center:
  assumes "Ribbon_center props paths t time i = Inr c"
    "Ribbon_vertices props paths t time i = Inr (l, r)"
  shows "coords_within (\<bar>width props\<bar> / 2) (vx l - vx c, vy l - vy c, vz l - vz c)"
    and "coords_within (\<bar>width props\<bar> / 2) (vx r - vx c, vy r - vy c, vz r - vz c)"
proof -
  obtain tg where tg: "Ribbon_tangent props paths t time i = Inr tg"
    using assms by (cases "Ribbon_tangent props paths t time i")
      (simp_all add: Ribbon_vertices_def bind_result_def)
  obtain n0 where n0: "normalize (crossVectors tg (0, 1, 0)) = Inr n0"
    by (simp add: normalize_Inr)
  let ?a = "real i * 0.1 * (1 - t) * 5"
  let ?n = "if ?a \<noteq> 0 then applyAxisAngle n0 tg ?a else n0"
  have lr: "l = (vx c + vx (multiplyScalar ?n (width props * 0.5)),
                 vy c + vy (multiplyScalar ?n (width props * 0.5)),
                 vz c + vz (multiplyScalar ?n (width props * 0.5)))"
           "r = (vx c - vx (multiplyScalar ?n (width props * 0.5)),
                 vy c - vy (multiplyScalar ?n (width props * 0.5)),
                 vz c - vz (multiplyScalar ?n (width props * 0.5)))"
    using assms(2)
    by (auto simp: Ribbon_vertices_def assms(1) tg n0 bind_result_def Let_def)
  have "sumsq ?n \<le> 1"
    by (rule twisted_normal_sumsq [OF Ribbon_tangent_unit_or_zero [OF tg] normalize_unit_or_zero [OF n0]])
  then have comp: "\<bar>vx ?n\<bar> \<le> 1" "\<bar>vy ?n\<bar> \<le> 1" "\<bar>vz ?n\<bar> \<le> 1"
    by (rule sumsq_component_le)+
  have b: "\<bar>vx ?n * (width props * 0.5)\<bar> \<le> \<bar>width props\<bar> / 2"
          "\<bar>vy ?n * (width props * 0.5)\<bar> \<le> \<bar>width props\<bar> / 2"
          "\<bar>vz ?n * (width props * 0.5)\<bar> \<le> \<bar>width props\<bar> / 2"
    by (rule side_offset_bound [OF comp(1)], rule side_offset_bound [OF comp(2)],
        rule side_offset_bound [OF comp(3)])
  show "coords_within (\<bar>width props\<bar> / 2) (vx l - vx c, vy l - vy c, vz l - vz c)"
    unfolding lr coords_within_def multiplyScalar_def using b
    by (simp add: vx_def vy_def vz_def)
  show "coords_within (\<bar>width props\<bar> / 2) (vx r - vx c, vy r - vy c, vz r - vz c)"
    unfolding lr coords_within_def multiplyScalar_def using b
    by (simp add: vx_def vy_def vz_def)
qed

lemma coords_within_add:
  assumes "coords_within B c" "coords_within W (vx v - vx c, vy v - vy c, vz v - vz c)"
  shows "coords_within (B + W) v"
  using assms unfolding coords_within_def vx_def vy_def vz_def fst_conv snd_conv by linarith

lemma Ribbon_vertex_bound:
  assumes "segments props < length (scatterPath paths)" "segments props < length (treePath paths)"
    "0 \<le> t" "t \<le> 1"
    "\<forall>p \<in> set (treePath paths) \<union> set (scatterPath paths). coords_within B p"
    "k < (segments props + 1) * 2"
  shows "coords_within (B + 3/2 + \<bar>width props\<bar> / 2) (Ribbon_vertex props paths t time k)"
proof -
  let ?i = "k div 2"
  have i: "?i \<le> segments props" using assms(6) by simp
  have isc: "?i < length (scatterPath paths)" and itr: "?i < length (treePath paths)"
    using i assms(1,2) by simp_all
  have bnd: "\<forall>p \<in> set (treePath paths) \<union> set (scatterPath paths). \<bar>vx p\<bar> \<le> B \<and> \<bar>vy p\<bar> \<le> B \<and> \<bar>vz p\<bar> \<le> B"
    using assms(5) by (simp add: coords_within_def)
  obtain c where c: "Ribbon_center props paths t time ?i = Inr c" "coords_within (B + 3/2) c"
    using Ribbon_center_bound [OF isc itr assms(3,4) bnd, of props time]
    by (auto simp: coords_within_def)
  obtain lr where "Ribbon_vertices props paths t time ?i = Inr lr"
    using Ribbon_vertices_Inr [OF assms(1,2) i] by blast
  then obtain l r where lr: "Ribbon_vertices props paths t time ?i = Inr (l, r)"
    by (cases lr) simp
  have "coords_within (B + 3/2 + \<bar>width props\<bar> / 2) l"
    by (rule coords_within_add [OF c(2) Ribbon_vertices_near_center(1) [OF c(1) lr]])
  moreover have "coords_within (B + 3/2 + \<bar>width props\<bar> / 2) r"
    by (rule coords_within_add [OF c(2) Ribbon_vertices_near_center(2) [OF c(1) lr]])
  ultimately show ?thesis by (simp add: Ribbon_vertex_def lr)
qed

lemma frame_bounded:
  assumes "segments props < length (scatterPath paths)" "segments props < length (treePath paths)"
    "0 \<le> progress" "progress \<le> 1"
    "\<forall>p \<in> set (treePath paths) \<union> set (scatterPath paths). coords_within B p"
    "attr_position geo = Some pos" "length pos = 2 * (segments props + 1)"
  shows "\<exists>geo' pos'. Ribbon_useFrame props paths progress time (Some geo) = Inr (Some geo')
            \<and> attr_position geo' = Some pos'
            \<and> (\<forall>v \<in> set pos'. coords_within (B + 3/2 + \<bar>width props\<bar> / 2) v)"
proof -
  obtain pos' where f:
    "Ribbon_useFrame props paths progress time (Some geo) = Inr (Some (geo\<lparr>attr_position := Some pos'\<rparr>))"
    "length pos' = length pos"
    "\<forall>k<length pos. pos' ! k = (if k < (segments props + 1) * 2
        then Ribbon_vertex props paths (smoothstep progress) time k else pos ! k)"
    using frame_ok [OF assms(1,2,6)] by blast
  have t: "0 \<le> smoothstep progress" "smoothstep progress \<le> 1"
    using smoothstep_unit [OF assms(3,4)] by simp_all
  have "coords_within (B + 3/2 + \<bar>width props\<bar> / 2) v" if v: "v \<in> set pos'" for v
  proof -
    have "\<exists>k<length pos'. pos' ! k = v" using v by (simp only: in_set_conv_nth)
    then obtain k where k: "k < length pos'" "v = pos' ! k" by blast
    have k2: "k < (segments props + 1) * 2" "k < length pos" using k(1) f(2) assms(7) by simp_all
    have "v = Ribbon_vertex props paths (smoothstep progress) time k"
      using f(3) k(2) k2 by simp
    then show ?thesis
      using Ribbon_vertex_bound [OF assms(1,2) t assms(5) k2(1)] by simp
  qed
  moreover have "attr_position (geo\<lparr>attr_position := Some pos'\<rparr>) = Some pos'" by simp
  ultimately show ?thesis using f(1) by blast
qed

text \<open>
  Claim C5, as the code has it. For every progress in [0,1] (the eased progress is then in [0,1]
  too), every time and every path index \<open>i \<le> N\<close> of a ribbon with paths of \<open>N + 1\<close> samples, the
  pass computes a tangent and the two vertices: no division by zero and no read out of range
  occurs, since a normalisation divides by the length, or by 1 when the length is zero. There is
  no default axis for a degenerate vector: the tangent has length 1 or is the zero vector, and the
  zero vector is normalised to the zero vector. When the next blended centre differs from the
  centre only in y (the tangent is parallel to the up reference, or zero), the normal is zero and
  both vertices equal the centre; when the two centres coincide, the tangent is the zero vector.
  The frame on a geometry with a position attribute returns a geometry, and what it writes is
  bounded: when every coordinate of every path sample is within \<open>B\<close> of zero, every coordinate
  of every vertex of the laid-out buffer is within \<open>B + 1.5 + |width| / 2\<close> after the frame.
\<close>

theorem ribbon_degenerate_vectors:
  assumes "length (treePath paths) = segments props + 1"
    "length (scatterPath paths) = segments props + 1" "i \<le> segments props"
    "0 \<le> progress" "progress \<le> 1"
  shows "(\<exists>tangent left right.
            Ribbon_tangent props paths (smoothstep progress) time i = Inr tangent
          \<and> (sumsq tangent = 1 \<or> tangent = (0, 0, 0))
          \<and> Ribbon_vertices props paths (smoothstep progress) time i = Inr (left, right))
       \<and> (\<forall>c n. i < segments props
              \<and> Ribbon_center props paths (smoothstep progress) time i = Inr c
              \<and> Ribbon_center props paths (smoothstep progress) time (i + 1) = Inr n
              \<and> vx n = vx c \<and> vz n = vz c
              \<longrightarrow> Ribbon_vertices props paths (smoothstep progress) time i = Inr (c, c))
       \<and> (\<forall>c. i < segments props
              \<and> Ribbon_center props paths (smoothstep progress) time i = Inr c
              \<and> Ribbon_center props paths (smoothstep progress) time (i + 1) = Inr c
              \<longrightarrow> Ribbon_tangent props paths (smoothstep progress) time i = Inr (0, 0, 0))
       \<and> normalize (0, 0, 0) = Inr (0, 0, 0)
       \<and> (\<forall>geo pos. attr_position geo = Some pos \<longrightarrow>
             (\<exists>geo'. Ribbon_useFrame props paths progress time (Some geo) = Inr (Some geo')))
       \<and> (\<forall>B geo pos.
             (\<forall>p \<in> set (treePath paths) \<union> set (scatterPath paths). coords_within B p)
             \<and> attr_position geo = Some pos \<and> length pos = 2 * (segments props + 1) \<longrightarrow>
             (\<exists>geo' pos'. Ribbon_useFrame props paths progress time (Some geo) = Inr (Some geo')
                \<and> attr_position geo' = Some pos'
                \<and> (\<forall>v \<in> set pos'. coords_within (B + 3/2 + \<bar>width props\<bar> / 2) v)))"
proof -
  let ?t = "smoothstep progress"
  have sp: "segments props < length (scatterPath paths)" and tp: "segments props < length (treePath paths)"
    using assms(1,2) by simp_all
  obtain tg where tg: "Ribbon_tangent props paths ?t time i = Inr tg"
    using Ribbon_tangent_Inr [OF sp tp assms(3)] by blast
  have unit: "sumsq tg = 1 \<or> tg = (0, 0, 0)"
    by (rule Ribbon_tangent_unit_or_zero [OF tg])
  obtain lr where "Ribbon_vertices props paths ?t time i = Inr lr"
    using Ribbon_vertices_Inr [OF sp tp assms(3)] by blast
  then obtain l r where lr: "Ribbon_vertices props paths ?t time i = Inr (l, r)"
    by (cases lr) simp
  have first: "\<exists>tangent left right.
            Ribbon_tangent props paths ?t time i = Inr tangent
          \<and> (sumsq tangent = 1 \<or> tangent = (0, 0, 0))
          \<and> Ribbon_vertices props paths ?t time i = Inr (left, right)"
    using tg unit lr by blast
  have vertical: "Ribbon_vertices props paths ?t time i = Inr (c, c)"
    if "i < segments props \<and> Ribbon_center props paths ?t time i = Inr c
              \<and> Ribbon_center props paths ?t time (i + 1) = Inr n \<and> vx n = vx c \<and> vz n = vz c" for c n
  proof -
    have h: "i < segments props" "Ribbon_center props paths ?t time i = Inr c"
      "Ribbon_center props paths ?t time (i + 1) = Inr n" "vx n = vx c" "vz n = vz c"
      using that by simp_all
    obtain a where a: "Ribbon_tangent props paths ?t time i = Inr (0, a, 0)"
      using tangent_of_vertical_step [OF h] by blast
    show ?thesis by (rule vertices_of_vertical_tangent [OF h(2) a])
  qed
  have coincide: "Ribbon_tangent props paths ?t time i = Inr (0, 0, 0)"
    if "i < segments props \<and> Ribbon_center props paths ?t time i = Inr c
              \<and> Ribbon_center props paths ?t time (i + 1) = Inr c" for c
  proof -
    have h: "i < segments props" "Ribbon_center props paths ?t time i = Inr c"
      "Ribbon_center props paths ?t time (i + 1) = Inr c"
      using that by simp_all
    show ?thesis by (rule tangent_of_coincident_step [OF h])
  qed
  have frame: "\<exists>geo'. Ribbon_useFrame props paths progress time (Some geo) = Inr (Some geo')"
    if "attr_position geo = Some pos" for geo pos
    using frame_ok [OF sp tp that] by blast
  have bounded: "\<exists>geo' pos'. Ribbon_useFrame props paths progress time (Some geo) = Inr (Some geo')
                \<and> attr_position geo' = Some pos'
                \<and> (\<forall>v \<in> set pos'. coords_within (B + 3/2 + \<bar>width props\<bar> / 2) v)"
    if "(\<forall>p \<in> set (treePath paths) \<union> set (scatterPath paths). coords_within B p)
             \<and> attr_position geo = Some pos \<and> length pos = 2 * (segments props + 1)" for B geo pos
  proof -
    have h: "\<forall>p \<in> set (treePath paths) \<union> set (scatterPath paths). coords_within B p"
      "attr_position geo = Some pos" "length pos = 2 * (segments props + 1)"
      using that by simp_all
    show ?thesis by (rule frame_bounded [OF sp tp assms(4,5) h])
  qed
  show ?thesis
  proof (intro conjI allI impI)
    show "\<exists>tangent left right.
            Ribbon_tangent props paths ?t time i = Inr tangent
          \<and> (sumsq tangent = 1 \<or> tangent = (0, 0, 0))
          \<and> Ribbon_vertices props paths ?t time i = Inr (left, right)"
      by (rule first)
    show "normalize (0, 0, 0) = Inr (0, 0, 0)" by (rule normalize_zero)
  qed (use vertical coincide frame bounded in blast)+
qed

text \<open>
  The theorem of C5 at progress 1 on two ribbons of one segment: one whose tree path rises
  vertically, one whose tree path stays at the point (2,2,2), with the bound \<open>B = 2\<close>.
\<close>

theorem ribbon_degenerate_vectors_witness:
  "length (treePath \<lparr>treePath = [(1/2, 0, 0), (1/2, 1, 0)], scatterPath = [(0, 0, 0), (0, 0, 0)]\<rparr>)
     = segments \<lparr>width = 1, segments = 1, phaseOffset = 0\<rparr> + 1
   \<and> (0::nat) < segments \<lparr>width = 1, segments = 1, phaseOffset = 0\<rparr>
   \<and> (0::real) \<le> 1
   \<and> smoothstep 1 = 1
   \<and> Ribbon_center \<lparr>width = 1, segments = 1, phaseOffset = 0\<rparr>
         \<lparr>treePath = [(1/2, 0, 0), (1/2, 1, 0)], scatterPath = [(0, 0, 0), (0, 0, 0)]\<rparr> 1 0 0
       = Inr (1/2, 0, 0)
   \<and> Ribbon_center \<lparr>width = 1, segments = 1, phaseOffset = 0\<rparr>
         \<lparr>treePath = [(1/2, 0, 0), (1/2, 1, 0)], scatterPath = [(0, 0, 0), (0, 0, 0)]\<rparr> 1 0 (0 + 1)
       = Inr (1/2, 1, 0)
   \<and> Ribbon_vertices \<lparr>width = 1, segments = 1, phaseOffset = 0\<rparr>
         \<lparr>treePath = [(1/2, 0, 0), (1/2, 1, 0)], scatterPath = [(0, 0, 0), (0, 0, 0)]\<rparr> 1 0 0
       = Inr ((1/2, 0, 0), (1/2, 0, 0))
   \<and> Ribbon_center \<lparr>width = 1, segments = 1, phaseOffset = 0\<rparr>
         \<lparr>treePath = [(2, 2, 2), (2, 2, 2)], scatterPath = [(0, 0, 0), (0, 0, 0)]\<rparr> 1 0 0
       = Inr (2, 2, 2)
   \<and> Ribbon_center \<lparr>width = 1, segments = 1, phaseOffset = 0\<rparr>
         \<lparr>treePath = [(2, 2, 2), (2, 2, 2)], scatterPath = [(0, 0, 0), (0, 0, 0)]\<rparr> 1 0 (0 + 1)
       = Inr (2, 2, 2)
   \<and> Ribbon_tangent \<lparr>width = 1, segments = 1, phaseOffset = 0\<rparr>
         \<lparr>treePath = [(2, 2, 2), (2, 2, 2)], scatterPath = [(0, 0, 0), (0, 0, 0)]\<rparr> 1 0 0
       = Inr (0, 0, 0)
   \<and> set (treePath \<lparr>treePath = [(2, 2, 2), (2, 2, 2)], scatterPath = [(0, 0, 0), (0, 0, 0)]\<rparr>)
         \<union> set (scatterPath \<lparr>treePath = [(2, 2, 2), (2, 2, 2)], scatterPath = [(0, 0, 0), (0, 0, 0)]\<rparr>)
       \<subseteq> {p. coords_within 2 p}
   \<and> Ribbon_useFrame \<lparr>width = 1, segments = 1, phaseOffset = 0\<rparr>
         \<lparr>treePath = [(2, 2, 2), (2, 2, 2)], scatterPath = [(0, 0, 0), (0, 0, 0)]\<rparr> 1 0
         (Some \<lparr>attr_position = Some [(0, 0, 0), (0, 0, 0), (0, 0, 0), (0, 0, 0)],
                attr_uv = None, index = None\<rparr>)
       = Inr (Some \<lparr>attr_position = Some [(2, 2, 2), (2, 2, 2), (2, 2, 2), (2, 2, 2)],
                    attr_uv = None, index = None\<rparr>)
   \<and> coords_within (2 + 3/2 + \<bar>width \<lparr>width = 1, segments = 1, phaseOffset = 0\<rparr>\<bar> / 2) (2, 2, 2)"
  using ribbon_degenerate_vectors [of
      "\<lparr>treePath = [(1/2, 0, 0), (1/2, 1, 0)], scatterPath = [(0, 0, 0), (0, 0, 0)]\<rparr>"
      "\<lparr>width = 1, segments = 1, phaseOffset = 0\<rparr>" 0 1 0]
    ribbon_degenerate_vectors [of
      "\<lparr>treePath = [(2, 2, 2), (2, 2, 2)], scatterPath = [(0, 0, 0), (0, 0, 0)]\<rparr>"
      "\<lparr>width = 1, segments = 1, phaseOffset = 0\<rparr>" 0 1 0]
  by (simp add: ribbon_eval coords_within_def)

text \<open>
  Claim C5 as stated fails: on a ribbon whose tree path rises vertically the tangent is the
  up-vector, the normal is the normalised zero vector, which is the zero vector, and the two
  vertices coincide although the width is 0.6; on a ribbon whose samples coincide the tangent is
  the zero vector. No default axis replaces either.
\<close>

theorem ribbon_no_default_axis_counterexample:
  "Ribbon_tangent \<lparr>width = 3/5, segments = 2, phaseOffset = 0\<rparr>
         \<lparr>treePath = [(1/2, -5, 0), (1/2, 1, 0), (1/2, 7, 0)],
          scatterPath = [(0, 0, 0), (0, 0, 0), (0, 0, 0)]\<rparr> 1 0 0
       = Inr (0, 1, 0)
   \<and> normalize (crossVectors (0, 1, 0) (0, 1, 0)) = Inr (0, 0, 0)
   \<and> Ribbon_vertices \<lparr>width = 3/5, segments = 2, phaseOffset = 0\<rparr>
         \<lparr>treePath = [(1/2, -5, 0), (1/2, 1, 0), (1/2, 7, 0)],
          scatterPath = [(0, 0, 0), (0, 0, 0), (0, 0, 0)]\<rparr> 1 0 0
       = Inr ((1/2, -5, 0), (1/2, -5, 0))
   \<and> Ribbon_tangent \<lparr>width = 3/5, segments = 2, phaseOffset = 0\<rparr>
         \<lparr>treePath = [(1, 1, 1), (1, 1, 1), (1, 1, 1)],
          scatterPath = [(0, 0, 0), (0, 0, 0), (0, 0, 0)]\<rparr> 1 0 0
       = Inr (0, 0, 0)
   \<and> Ribbon_vertices \<lparr>width = 3/5, segments = 2, phaseOffset = 0\<rparr>
         \<lparr>treePath = [(1, 1, 1), (1, 1, 1), (1, 1, 1)],
          scatterPath = [(0, 0, 0), (0, 0, 0), (0, 0, 0)]\<rparr> 1 0 0
       = Inr ((1, 1, 1), (1, 1, 1))"
  by (simp add: ribbon_eval)

section \<open>Idempotence of the per-tick recomputes\<close>

lemma ribbon_frame_idempotent:
  "bind_result (Ribbon_useFrame props paths progress time meshRef)
     (Ribbon_useFrame props paths progress time) = Ribbon_useFrame props paths progress time meshRef"
proof (cases meshRef)
  case None
  then show ?thesis by (simp add: Ribbon_useFrame_def bind_result_def)
next
  case (Some geo)
  show ?thesis
  proof (cases "attr_position geo")
    case None
    then show ?thesis using Some by (simp add: Ribbon_useFrame_def bind_result_def)
  next
    case (Some b)
    note b = this
    show ?thesis
    proof (cases "Ribbon_loop props paths (smoothstep progress) time 0 b")
      case (Inl e)
      then show ?thesis
        using frame_Some [OF b, of props paths progress time] \<open>meshRef = Some geo\<close>
        by (simp add: bind_result_def)
    next
      case (Inr b')
      let ?g = "geo\<lparr>attr_position := Some b'\<rparr>"
      have one: "Ribbon_useFrame props paths progress time (Some geo) = Inr (Some ?g)"
        using frame_Some [OF b, of props paths progress time] Inr by simp
      have again: "Ribbon_loop props paths (smoothstep progress) time 0 b' = Inr b'"
        by (rule loop_idempotent [OF Inr])
      have p: "attr_position ?g = Some b'" by simp
      have two: "Ribbon_useFrame props paths progress time (Some ?g) = Inr (Some ?g)"
        using frame_Some [OF p, of props paths progress time] again by simp
      show ?thesis
        using one two \<open>meshRef = Some geo\<close> by (simp add: bind_result_def)
    qed
  qed
qed

lemma ribbon_frame_independent:
  assumes "attr_position g1 = Some b1" "attr_position g2 = Some b2" "length b1 = length b2"
    "length b1 \<le> (segments props + 1) * 2"
  shows "bind_result (Ribbon_useFrame props paths progress time (Some g1))
           (\<lambda>g. Inr (map_option attr_position g))
       = bind_result (Ribbon_useFrame props paths progress time (Some g2))
           (\<lambda>g. Inr (map_option attr_position g))"
proof -
  have "Ribbon_loop props paths (smoothstep progress) time 0 b1
      = Ribbon_loop props paths (smoothstep progress) time 0 b2"
    by (rule loop_independent [OF assms(3,4)])
  then show ?thesis
    using frame_Some [OF assms(1), of props paths progress time]
      frame_Some [OF assms(2), of props paths progress time]
    by (simp add: bind_result_def split: sum.splits)
qed

lemma forEach_idempotent:
  assumes "Ornaments_forEach data 0 t time (obj, m) = (obj', m')"
  shows "Ornaments_forEach data 0 t time (obj', m') = (obj', m')"
proof -
  have m': "m' = snd (Ornaments_forEach data 0 t time (obj, m))"
    and o': "obj' = fst (Ornaments_forEach data 0 t time (obj, m))"
    using assms by simp_all
  have len: "length m' = length m" unfolding m' by (rule forEach_length)
  have fst_eq: "fst (Ornaments_forEach data 0 t time (obj', m')) = obj'"
    unfolding o' forEach_fst [where ?obj0.0 = obj] by simp
  have "snd (Ornaments_forEach data 0 t time (obj', m')) = m'"
  proof (rule nth_equalityI)
    show "length (snd (Ornaments_forEach data 0 t time (obj', m'))) = length m'"
      by (rule forEach_length)
    fix k assume "k < length (snd (Ornaments_forEach data 0 t time (obj', m')))"
    then have k: "k < length m'" "k < length m" using forEach_length len by simp_all
    have a: "snd (Ornaments_forEach data 0 t time (obj', m')) ! k =
               (if 0 \<le> k \<and> k < 0 + length data then Ornaments_item (data ! (k - 0)) t time obj else m' ! k)"
      by (rule forEach_nth [OF k(1)])
    have b: "m' ! k =
               (if 0 \<le> k \<and> k < 0 + length data then Ornaments_item (data ! (k - 0)) t time obj else m ! k)"
      unfolding m' by (rule forEach_nth [OF k(2)])
    show "snd (Ornaments_forEach data 0 t time (obj', m')) ! k = m' ! k"
      using a b by simp
  qed
  with fst_eq show ?thesis by (simp add: prod_eq_iff)
qed

lemma ornaments_frame_idempotent:
  "Ornaments_useFrame data progress time (Ornaments_useFrame data progress time st)
     = Ornaments_useFrame data progress time st"
proof (cases "instanceMatrix st")
  case None
  then show ?thesis by (simp add: Ornaments_useFrame_def)
next
  case (Some m)
  obtain obj' m' where r: "Ornaments_forEach data 0 (smoothstep progress) time (tempObject st, m) = (obj', m')"
    by (cases "Ornaments_forEach data 0 (smoothstep progress) time (tempObject st, m)")
  have one: "Ornaments_useFrame data progress time st = \<lparr>tempObject = obj', instanceMatrix = Some m'\<rparr>"
    using Some r by (simp add: Ornaments_useFrame_def)
  have "Ornaments_forEach data 0 (smoothstep progress) time (obj', m') = (obj', m')"
    by (rule forEach_idempotent [OF r])
  then have "Ornaments_useFrame data progress time \<lparr>tempObject = obj', instanceMatrix = Some m'\<rparr>
        = \<lparr>tempObject = obj', instanceMatrix = Some m'\<rparr>"
    by (simp add: Ornaments_useFrame_def)
  then show ?thesis using one by simp
qed

lemma ornaments_frame_independent:
  assumes "instanceMatrix st1 = Some m1" "instanceMatrix st2 = Some m2" "length m1 = length m2"
    "length m1 \<le> length data"
  shows "instanceMatrix (Ornaments_useFrame data progress time st1)
       = instanceMatrix (Ornaments_useFrame data progress time st2)"
proof -
  let ?t = "smoothstep progress"
  have "snd (Ornaments_forEach data 0 ?t time (tempObject st1, m1))
      = snd (Ornaments_forEach data 0 ?t time (tempObject st2, m2))"
  proof (rule nth_equalityI)
    show "length (snd (Ornaments_forEach data 0 ?t time (tempObject st1, m1)))
        = length (snd (Ornaments_forEach data 0 ?t time (tempObject st2, m2)))"
      using assms(3) by (simp add: forEach_length)
    fix k assume "k < length (snd (Ornaments_forEach data 0 ?t time (tempObject st1, m1)))"
    then have k: "k < length m1" "k < length m2" "k < length data"
      using assms(3,4) by (simp_all add: forEach_length)
    show "snd (Ornaments_forEach data 0 ?t time (tempObject st1, m1)) ! k
        = snd (Ornaments_forEach data 0 ?t time (tempObject st2, m2)) ! k"
      using k by (simp add: forEach_nth [where ?obj0.0 = "tempObject st1"])
  qed
  then show ?thesis
    using useFrame_instance [OF assms(1)] useFrame_instance [OF assms(2)] by simp
qed

text \<open>
  Claim C7: a frame of the ribbon and a frame of the ornaments are functions of the progress, the
  time and the static data. Run a second time with the same progress and time on the state the
  first run left, each returns that state again (for the ribbon also when the first run fails:
  the error is returned). And what a frame writes does not depend on what the buffer held before:
  two position attributes of the same length, at most \<open>2 (N + 1)\<close>, give the same position
  attribute, and two instance buffers of the same length, at most the number of instances, give
  the same instance buffer, whatever \<open>tempObject\<close> held.
\<close>

theorem frame_recompute_idempotent:
  "bind_result (Ribbon_useFrame props paths progress time meshRef)
       (Ribbon_useFrame props paths progress time)
     = Ribbon_useFrame props paths progress time meshRef
   \<and> Ornaments_useFrame data progress time (Ornaments_useFrame data progress time st)
     = Ornaments_useFrame data progress time st
   \<and> (attr_position g1 = Some b1 \<and> attr_position g2 = Some b2 \<and> length b1 = length b2
        \<and> length b1 \<le> (segments props + 1) * 2 \<longrightarrow>
        bind_result (Ribbon_useFrame props paths progress time (Some g1))
            (\<lambda>g. Inr (map_option attr_position g))
      = bind_result (Ribbon_useFrame props paths progress time (Some g2))
            (\<lambda>g. Inr (map_option attr_position g)))
   \<and> (instanceMatrix st1 = Some m1 \<and> instanceMatrix st2 = Some m2 \<and> length m1 = length m2
        \<and> length m1 \<le> length data \<longrightarrow>
        instanceMatrix (Ornaments_useFrame data progress time st1)
      = instanceMatrix (Ornaments_useFrame data progress time st2))"
proof (intro conjI impI)
  show "bind_result (Ribbon_useFrame props paths progress time meshRef)
       (Ribbon_useFrame props paths progress time)
     = Ribbon_useFrame props paths progress time meshRef"
    by (rule ribbon_frame_idempotent)
  show "Ornaments_useFrame data progress time (Ornaments_useFrame data progress time st)
     = Ornaments_useFrame data progress time st"
    by (rule ornaments_frame_idempotent)
next
  assume "attr_position g1 = Some b1 \<and> attr_position g2 = Some b2 \<and> length b1 = length b2
        \<and> length b1 \<le> (segments props + 1) * 2"
  then have h: "attr_position g1 = Some b1" "attr_position g2 = Some b2" "length b1 = length b2"
    "length b1 \<le> (segments props + 1) * 2" by simp_all
  show "bind_result (Ribbon_useFrame props paths progress time (Some g1))
            (\<lambda>g. Inr (map_option attr_position g))
      = bind_result (Ribbon_useFrame props paths progress time (Some g2))
            (\<lambda>g. Inr (map_option attr_position g))"
    by (rule ribbon_frame_independent [OF h])
next
  assume "instanceMatrix st1 = Some m1 \<and> instanceMatrix st2 = Some m2 \<and> length m1 = length m2
        \<and> length m1 \<le> length data"
  then have h: "instanceMatrix st1 = Some m1" "instanceMatrix st2 = Some m2" "length m1 = length m2"
    "length m1 \<le> length data" by simp_all
  show "instanceMatrix (Ornaments_useFrame data progress time st1)
      = instanceMatrix (Ornaments_useFrame data progress time st2)"
    by (rule ornaments_frame_independent [OF h])
qed

text \<open>
  The theorem of C7 on a ribbon of one segment and on one ornament, each started from two
  different buffers.
\<close>

theorem frame_recompute_idempotent_witness:
  "attr_position \<lparr>attr_position = Some [(0, 0, 0), (0, 0, 0), (0, 0, 0), (0, 0, 0)], attr_uv = None, index = None\<rparr>
     = Some [(0, 0, 0), (0, 0, 0), (0, 0, 0), (0, 0, 0)]
   \<and> attr_position \<lparr>attr_position = Some [(9, 9, 9), (8, 8, 8), (7, 7, 7), (6, 6, 6)], attr_uv = None, index = None\<rparr>
     = Some [(9, 9, 9), (8, 8, 8), (7, 7, 7), (6, 6, 6)]
   \<and> length [(0, 0, 0), (0, 0, 0), (0, 0, 0), (0, 0, 0 :: real)]
       \<le> (segments \<lparr>width = 1, segments = 1, phaseOffset = 0\<rparr> + 1) * 2
   \<and> bind_result (Ribbon_useFrame \<lparr>width = 1, segments = 1, phaseOffset = 0\<rparr>
         \<lparr>treePath = [(0, 0, 0), (1, 0, 0)], scatterPath = [(0, 0, 0), (0, 0, 0)]\<rparr> 1 0
         (Some \<lparr>attr_position = Some [(0, 0, 0), (0, 0, 0), (0, 0, 0), (0, 0, 0)], attr_uv = None, index = None\<rparr>))
       (\<lambda>g. Inr (map_option attr_position g))
     = Inr (Some (Some [(0, 0, 1/2), (0, 0, -1/2), (1, 0, 0), (1, 0, 0)]))
   \<and> bind_result (Ribbon_useFrame \<lparr>width = 1, segments = 1, phaseOffset = 0\<rparr>
         \<lparr>treePath = [(0, 0, 0), (1, 0, 0)], scatterPath = [(0, 0, 0), (0, 0, 0)]\<rparr> 1 0
         (Some \<lparr>attr_position = Some [(9, 9, 9), (8, 8, 8), (7, 7, 7), (6, 6, 6)], attr_uv = None, index = None\<rparr>))
       (\<lambda>g. Inr (map_option attr_position g))
     = Inr (Some (Some [(0, 0, 1/2), (0, 0, -1/2), (1, 0, 0), (1, 0, 0)]))
   \<and> instanceMatrix (Ornaments_useFrame
         [\<lparr>treePosition = (1, 2, 3), scatterPosition = (4, 5, 6), rotation = (0, 0, 0),
           scale = 1, speed = 1/2, phase = 0\<rparr>] 1 7
         \<lparr>tempObject = \<lparr>obj_position = (0, 0, 0), obj_rotation = (0, 0, 0), obj_scale = (0, 0, 0)\<rparr>,
          instanceMatrix = Some [\<lparr>obj_position = (0, 0, 0), obj_rotation = (0, 0, 0), obj_scale = (0, 0, 0)\<rparr>]\<rparr>)
     = Some [\<lparr>obj_position = (1, 2, 3), obj_rotation = (0, 0, 0), obj_scale = (1, 1, 1)\<rparr>]
   \<and> instanceMatrix (Ornaments_useFrame
         [\<lparr>treePosition = (1, 2, 3), scatterPosition = (4, 5, 6), rotation = (0, 0, 0),
           scale = 1, speed = 1/2, phase = 0\<rparr>] 1 7
         \<lparr>tempObject = \<lparr>obj_position = (5, 5, 5), obj_rotation = (5, 5, 5), obj_scale = (5, 5, 5)\<rparr>,
          instanceMatrix = Some [\<lparr>obj_position = (9, 9, 9), obj_rotation = (9, 9, 9), obj_scale = (9, 9, 9)\<rparr>]\<rparr>)
     = Some [\<lparr>obj_position = (1, 2, 3), obj_rotation = (0, 0, 0), obj_scale = (1, 1, 1)\<rparr>]"
  using frame_recompute_idempotent [where
      props = "\<lparr>width = 1, segments = 1, phaseOffset = 0\<rparr>"
      and paths = "\<lparr>treePath = [(0, 0, 0), (1, 0, 0)], scatterPath = [(0, 0, 0), (0, 0, 0)]\<rparr>"
      and progress = 1 and time = 0
      and ?g1.0 = "\<lparr>attr_position = Some [(0, 0, 0), (0, 0, 0), (0, 0, 0), (0, 0, 0)], attr_uv = None, index = None\<rparr>"
      and ?b1.0 = "[(0, 0, 0), (0, 0, 0), (0, 0, 0), (0, 0, 0)]"
      and ?g2.0 = "\<lparr>attr_position = Some [(9, 9, 9), (8, 8, 8), (7, 7, 7), (6, 6, 6)], attr_uv = None, index = None\<rparr>"
      and ?b2.0 = "[(9, 9, 9), (8, 8, 8), (7, 7, 7), (6, 6, 6)]"]
    frame_recompute_idempotent [where
      data = "[\<lparr>treePosition = (1, 2, 3), scatterPosition = (4, 5, 6), rotation = (0, 0, 0),
           scale = 1, speed = 1/2, phase = 0\<rparr>]"
      and progress = 1 and time = 7
      and ?st1.0 = "\<lparr>tempObject = \<lparr>obj_position = (0, 0, 0), obj_rotation = (0, 0, 0), obj_scale = (0, 0, 0)\<rparr>,
          instanceMatrix = Some [\<lparr>obj_position = (0, 0, 0), obj_rotation = (0, 0, 0), obj_scale = (0, 0, 0)\<rparr>]\<rparr>"
      and ?m1.0 = "[\<lparr>obj_position = (0, 0, 0), obj_rotation = (0, 0, 0), obj_scale = (0, 0, 0)\<rparr>]"
      and ?st2.0 = "\<lparr>tempObject = \<lparr>obj_position = (5, 5, 5), obj_rotation = (5, 5, 5), obj_scale = (5, 5, 5)\<rparr>,
          instanceMatrix = Some [\<lparr>obj_position = (9, 9, 9), obj_rotation = (9, 9, 9), obj_scale = (9, 9, 9)\<rparr>]\<rparr>"
      and ?m2.0 = "[\<lparr>obj_position = (9, 9, 9), obj_rotation = (9, 9, 9), obj_scale = (9, 9, 9)\<rparr>]"]
  by (simp add: ribbon_eval Ornaments_useFrame_def Ornaments_item_def)

end
